theory Spec2Isabelle
  imports Complex_Main "HOL-Library.AList"
begin

section \<open>Python values used by the programs\<close>

text \<open>
  A Python \<open>str\<close> is modelled by its UTF-8 bytes, an Isabelle \<open>string\<close>. The contract
  codes and the English column labels are ASCII; the Chinese labels and data-type names
  are spelled out byte by byte below. Equality of labels and the search for an ASCII
  pattern inside a label are the same on code points and on UTF-8 bytes.
  \<open>str.upper\<close>, \<open>str.lower\<close> and \<open>str.isdigit\<close> are modelled on ASCII: a byte outside
  \<open>a-z\<close>, \<open>A-Z\<close>, \<open>0-9\<close> is neither a digit nor changed by a case conversion.
\<close>

datatype py_error =
    KeyError | ValueError | TypeError | AttributeError | OverflowError | ZeroDivisionError

definition ascii_lower :: string where
  "ascii_lower = ''abcdefghijklmnopqrstuvwxyz''"

definition ascii_upper :: string where
  "ascii_upper = ''ABCDEFGHIJKLMNOPQRSTUVWXYZ''"

definition upper_char :: "char \<Rightarrow> char" where
  "upper_char c = (case map_of (zip ascii_lower ascii_upper) c of Some u \<Rightarrow> u | None \<Rightarrow> c)"

definition lower_char :: "char \<Rightarrow> char" where
  "lower_char c = (case map_of (zip ascii_upper ascii_lower) c of Some l \<Rightarrow> l | None \<Rightarrow> c)"

definition upper :: "string \<Rightarrow> string" where
  "upper s = map upper_char s"

definition lower :: "string \<Rightarrow> string" where
  "lower s = map lower_char s"

definition isdigit :: "char \<Rightarrow> bool" where
  "isdigit c = (c \<in> set ''0123456789'')"

text \<open>\<open>p in s\<close> on strings: \<open>p\<close> occurs in \<open>s\<close> as a contiguous piece.\<close>

fun py_in :: "string \<Rightarrow> string \<Rightarrow> bool" where
  "py_in p [] = (p = [])"
| "py_in p (c # cs) = (take (length p) (c # cs) = p \<or> py_in p cs)"

section \<open>Exchange routing\<close>

datatype exchange = SHFE | DCE | CZCE | CFFEX | GFEX

text \<open>
  \<open>FUTURE_EXCHANGE_MAP\<close>, the same table in \<open>data_utils.py\<close> and in \<open>dashboard_v6.py\<close>:
  the keys of the Shanghai and Dalian products are lower case, those of the Zhengzhou and
  CFFEX products upper case. No key is repeated.
\<close>

definition FUTURE_EXCHANGE_MAP :: "(string \<times> exchange) list" where
  "FUTURE_EXCHANGE_MAP =
    [(''rb'', SHFE), (''hc'', SHFE), (''bu'', SHFE), (''ru'', SHFE), (''br'', SHFE),
     (''fu'', SHFE), (''sp'', SHFE), (''cu'', SHFE), (''al'', SHFE), (''ao'', SHFE),
     (''pb'', SHFE), (''zn'', SHFE), (''sn'', SHFE), (''ni'', SHFE), (''ss'', SHFE),
     (''au'', SHFE), (''ag'', SHFE), (''wr'', SHFE),
     (''a'', DCE), (''b'', DCE), (''c'', DCE), (''cs'', DCE), (''m'', DCE), (''y'', DCE),
     (''p'', DCE), (''i'', DCE), (''j'', DCE), (''jm'', DCE), (''l'', DCE), (''v'', DCE),
     (''pp'', DCE), (''eg'', DCE), (''rr'', DCE), (''eb'', DCE),
     (''TA'', CZCE), (''MA'', CZCE), (''RM'', CZCE), (''RS'', CZCE), (''OI'', CZCE),
     (''SR'', CZCE), (''CF'', CZCE), (''ZC'', CZCE), (''FG'', CZCE), (''LR'', CZCE),
     (''RI'', CZCE), (''WH'', CZCE), (''JR'', CZCE), (''TC'', CZCE),
     (''IF'', CFFEX), (''IH'', CFFEX), (''IC'', CFFEX), (''TF'', CFFEX), (''T'', CFFEX),
     (''TS'', CFFEX)]"

text \<open>
  The loop over \<open>enumerate(symbol)\<close> that both files use: the part of the symbol before
  its first digit, upper-cased; the whole symbol, upper-cased, when it has no digit.
\<close>

definition product_code_of :: "string \<Rightarrow> string" where
  "product_code_of symbol = upper (takeWhile (\<lambda>c. \<not> isdigit c) symbol)"

text \<open>
  \<open>get_exchange_by_symbol\<close> of \<open>data_utils.py\<close> (the first definition of that name in
  \<open>dashboard_v6.py\<close> has the same body). \<open>None\<close> is Python's \<open>None\<close>: not recognised.
\<close>

definition get_exchange_by_symbol :: "string \<Rightarrow> exchange option" where
  "get_exchange_by_symbol symbol =
    (let product_code = product_code_of symbol in
     if map_of FUTURE_EXCHANGE_MAP product_code \<noteq> None
     then map_of FUTURE_EXCHANGE_MAP product_code
     else if 2 \<le> length product_code
             \<and> map_of FUTURE_EXCHANGE_MAP (take 2 product_code) \<noteq> None
     then map_of FUTURE_EXCHANGE_MAP (take 2 product_code)
     else if map_of FUTURE_EXCHANGE_MAP (take 1 product_code) \<noteq> None
     then map_of FUTURE_EXCHANGE_MAP (take 1 product_code)
     else None)"

text \<open>
  The second definition of \<open>get_exchange_by_symbol\<close> in \<open>dashboard_v6.py\<close>. It comes later
  in the module, so it is the one the dashboard's callers reach. The loop over the
  lengths \<open>[2, 1]\<close> is written as a recursion over that list.
\<close>

fun try_lengths :: "string \<Rightarrow> nat list \<Rightarrow> exchange option" where
  "try_lengths symbol [] = Some SHFE"
| "try_lengths symbol (len # lens) =
    (if len \<le> length symbol
        \<and> map_of FUTURE_EXCHANGE_MAP (lower (take len symbol)) \<noteq> None
     then map_of FUTURE_EXCHANGE_MAP (lower (take len symbol))
     else try_lengths symbol lens)"

definition get_exchange_by_symbol_v6 :: "string \<Rightarrow> exchange option" where
  "get_exchange_by_symbol_v6 symbol = try_lengths symbol [2, 1]"

text \<open>
  The routing rule in the words of the specification. The letter prefix of a symbol is
  what stands before its first character that is not a letter; the suffix of digits is
  the contract month. The candidates are the full prefix, its first two letters and its
  first letter, as the symbol spells them; they are tried in that order against the
  static table, the first one that is a key decides, and no match means no exchange.
\<close>

definition is_letter :: "char \<Rightarrow> bool" where
  "is_letter c = (c \<in> set (ascii_lower @ ascii_upper))"

definition letter_prefix :: "string \<Rightarrow> string" where
  "letter_prefix symbol = takeWhile is_letter symbol"

definition first_match :: "string list \<Rightarrow> exchange option" where
  "first_match candidates =
    (case filter (\<lambda>k. map_of FUTURE_EXCHANGE_MAP k \<noteq> None) candidates of
       [] \<Rightarrow> None
     | k # _ \<Rightarrow> map_of FUTURE_EXCHANGE_MAP k)"

definition route_spec :: "string \<Rightarrow> exchange option" where
  "route_spec symbol =
    (let prefix_letters = letter_prefix symbol
     in first_match [prefix_letters, take 2 prefix_letters, take 1 prefix_letters])"

text \<open>
  A symbol of ASCII characters: every byte is below 128. On such a symbol \<open>upper\<close>,
  \<open>lower\<close> and \<open>isdigit\<close> above are \<open>str.upper\<close>, \<open>str.lower\<close> and \<open>str.isdigit\<close> of Python,
  and a position in the string is a position in its bytes.
\<close>

definition is_ascii :: "string \<Rightarrow> bool" where
  "is_ascii s = list_all (\<lambda>c. (of_char c :: nat) < 128) s"


section \<open>Floating-point values\<close>

text \<open>
  A float of pandas or numpy is modelled as a real number or one of the three special
  values of IEEE 754. Arithmetic on the finite values is exact: rounding is not
  modelled, and neither is the sign of zero (a zero divisor counts as positive zero).
  The special values follow IEEE 754: a finite non-zero value divided by zero is an
  infinity, zero divided by zero is NaN, and every comparison with NaN is false.
\<close>

datatype fl = NaN | NInf | Fin real | PInf

fun fl_neg :: "fl \<Rightarrow> fl" where
  "fl_neg NaN = NaN"
| "fl_neg NInf = PInf"
| "fl_neg (Fin x) = Fin (- x)"
| "fl_neg PInf = NInf"

fun fl_add :: "fl \<Rightarrow> fl \<Rightarrow> fl" where
  "fl_add NaN y = NaN"
| "fl_add x NaN = NaN"
| "fl_add (Fin x) (Fin y) = Fin (x + y)"
| "fl_add PInf NInf = NaN"
| "fl_add NInf PInf = NaN"
| "fl_add PInf y = PInf"
| "fl_add x PInf = PInf"
| "fl_add NInf y = NInf"
| "fl_add x NInf = NInf"

definition fl_sub :: "fl \<Rightarrow> fl \<Rightarrow> fl" where
  "fl_sub x y = fl_add x (fl_neg y)"

text \<open>The sign of a value that is not NaN: \<open>-1\<close>, \<open>0\<close> or \<open>1\<close>.\<close>

fun fl_sgn :: "fl \<Rightarrow> int" where
  "fl_sgn NaN = 0"
| "fl_sgn NInf = - 1"
| "fl_sgn (Fin x) = (if x < 0 then - 1 else if x = 0 then 0 else 1)"
| "fl_sgn PInf = 1"

definition signed_inf :: "int \<Rightarrow> fl" where
  "signed_inf s = (if s < 0 then NInf else if s = 0 then NaN else PInf)"

fun fl_mul :: "fl \<Rightarrow> fl \<Rightarrow> fl" where
  "fl_mul NaN y = NaN"
| "fl_mul x NaN = NaN"
| "fl_mul (Fin x) (Fin y) = Fin (x * y)"
| "fl_mul x y = signed_inf (fl_sgn x * fl_sgn y)"

fun fl_div :: "fl \<Rightarrow> fl \<Rightarrow> fl" where
  "fl_div NaN y = NaN"
| "fl_div x NaN = NaN"
| "fl_div (Fin x) (Fin y) = (if y = 0 then signed_inf (fl_sgn (Fin x)) else Fin (x / y))"
| "fl_div (Fin x) y = Fin 0"
| "fl_div x (Fin y) = signed_inf (fl_sgn x * (if y < 0 then - 1 else 1))"
| "fl_div x y = NaN"

fun fl_abs :: "fl \<Rightarrow> fl" where
  "fl_abs NaN = NaN"
| "fl_abs NInf = PInf"
| "fl_abs (Fin x) = Fin \<bar>x\<bar>"
| "fl_abs PInf = PInf"

fun fl_less :: "fl \<Rightarrow> fl \<Rightarrow> bool" where
  "fl_less NaN y = False"
| "fl_less x NaN = False"
| "fl_less (Fin x) (Fin y) = (x < y)"
| "fl_less PInf y = False"
| "fl_less x PInf = True"
| "fl_less x NInf = False"
| "fl_less NInf y = True"

definition fl_le :: "fl \<Rightarrow> fl \<Rightarrow> bool" where
  "fl_le x y = (x \<noteq> NaN \<and> y \<noteq> NaN \<and> \<not> fl_less y x)"

text \<open>The larger of two values, a NaN being skipped (\<open>skipna\<close>).\<close>

definition fl_max :: "fl \<Rightarrow> fl \<Rightarrow> fl" where
  "fl_max x y = (if x = NaN then y else if y = NaN then x else if fl_less x y then y else x)"

fun fl_sqrt :: "fl \<Rightarrow> fl" where
  "fl_sqrt NaN = NaN"
| "fl_sqrt NInf = NaN"
| "fl_sqrt (Fin x) = (if x < 0 then NaN else Fin (sqrt x))"
| "fl_sqrt PInf = PInf"

text \<open>A column of floats, and the values of it that are numbers.\<close>

type_synonym series = "fl list"

fun observations :: "series \<Rightarrow> real list" where
  "observations [] = []"
| "observations (Fin x # xs) = x # observations xs"
| "observations (v # xs) = observations xs"

section \<open>Position sizing\<close>

text \<open>
  The arguments of the position-size calculation are Python floats, binary64 numbers of
  IEEE 754, and here the rounding of each operation counts: the product of two tiny
  positive numbers is zero. \<open>to_double\<close> rounds a real number to the nearest binary64
  value, a tie going to the even significand. Around \<open>x\<close> with
  \<open>2 ^ e \<le> |x| < 2 ^ (e + 1)\<close> the binary64 values are the multiples of \<open>2 ^ (e - 52)\<close>,
  where the exponent \<open>e\<close> is at least \<open>-1022\<close>: below \<open>2 ^ -1022\<close> they are the multiples
  of \<open>2 ^ -1074\<close>. A rounded value of magnitude \<open>2 ^ 1024\<close> or more is an infinity. The
  sign of zero is not modelled.
\<close>

definition pow2 :: "int \<Rightarrow> real" where
  "pow2 k = (if 0 \<le> k then 2 ^ nat k else 1 / 2 ^ nat (- k))"

definition round_half_even :: "real \<Rightarrow> int" where
  "round_half_even y =
    (let f = \<lfloor>y\<rfloor>; d = y - of_int f in
     if d < 1 / 2 then f
     else if 1 / 2 < d then f + 1
     else if even f then f
     else f + 1)"

definition binary_exponent :: "real \<Rightarrow> int" where
  "binary_exponent x = max (- 1022) \<lfloor>log 2 \<bar>x\<bar>\<rfloor>"

definition to_double :: "real \<Rightarrow> fl" where
  "to_double x =
    (if x = 0 then Fin 0
     else
       (let spacing = pow2 (binary_exponent x - 52);
            y = of_int (round_half_even (x / spacing)) * spacing
        in if pow2 1024 \<le> \<bar>y\<bar> then (if 0 < y then PInf else NInf) else Fin y))"

text \<open>
  The result of a float operation: the exact result, rounded when it is a number. A
  product never raises; a division by zero raises \<open>ZeroDivisionError\<close> whatever the
  dividend is.
\<close>

definition rounded :: "fl \<Rightarrow> fl" where
  "rounded v = (case v of Fin x \<Rightarrow> to_double x | _ \<Rightarrow> v)"

definition float_mul :: "fl \<Rightarrow> fl \<Rightarrow> fl" where
  "float_mul a b = rounded (fl_mul a b)"

definition float_truediv :: "fl \<Rightarrow> fl \<Rightarrow> py_error + fl" where
  "float_truediv a b = (if b = Fin 0 then Inl ZeroDivisionError else Inr (rounded (fl_div a b)))"

text \<open>The float that the literal \<open>0.01\<close> denotes: the binary64 value nearest to 1/100.\<close>

definition hundredth :: real where
  "hundredth = 5764607523034235 / 2 ^ 59"

text \<open>
  \<open>round(x, 2)\<close> on a float: the exact value of \<open>x\<close> is rounded to the nearest multiple
  of 1/100, a tie going to the even multiple, and the result is the float nearest to
  that decimal. A NaN or an infinity is returned as it is.
\<close>

definition round2 :: "fl \<Rightarrow> fl" where
  "round2 v = (case v of Fin x \<Rightarrow> to_double (of_int (round_half_even (x * 100)) / 100) | _ \<Rightarrow> v)"

text \<open>\<open>max(a, b)\<close> of two floats: \<open>b\<close> when \<open>b > a\<close>, and \<open>a\<close> otherwise, also when \<open>b\<close> is NaN.\<close>

definition py_max :: "fl \<Rightarrow> fl \<Rightarrow> fl" where
  "py_max a b = (if fl_less a b then b else a)"

text \<open>
  \<open>TechnicalCalculator.calculate_position_size\<close>. The division by a zero risk per
  contract raises; the handler logs and raises again.
\<close>

definition calculate_position_size :: "fl \<Rightarrow> fl \<Rightarrow> fl \<Rightarrow> fl \<Rightarrow> py_error + fl" where
  "calculate_position_size total_capital risk_per_trade atr contract_multiplier =
    (let risk_per_contract = float_mul atr contract_multiplier;
         total_risk = float_mul total_capital risk_per_trade
     in case float_truediv total_risk risk_per_contract of
          Inl e \<Rightarrow> Inl e
        | Inr position_size \<Rightarrow> Inr (py_max (Fin hundredth) (round2 position_size)))"


section \<open>Chinese labels of the position-ranking tables\<close>

text \<open>
  The Chinese column labels and data-type names of \<open>get_holding_rank_data\<close>, as UTF-8
  bytes, each with its code points and its meaning.
\<close>

text \<open>U+540D 6B21: "rank".\<close>

definition cn_rank :: string where
  "cn_rank =
    [CHR 0xE5, CHR 0x90, CHR 0x8D, CHR 0xE6, CHR 0xAC, CHR 0xA1]"

text \<open>U+4F1A 5458 7B80 79F0: "member (short name)".\<close>

definition cn_member :: string where
  "cn_member =
    [CHR 0xE4, CHR 0xBC, CHR 0x9A, CHR 0xE5, CHR 0x91, CHR 0x98, CHR 0xE7, CHR 0xAE,
    CHR 0x80, CHR 0xE7, CHR 0xA7, CHR 0xB0]"

text \<open>U+6570 503C: "value".\<close>

definition cn_value :: string where
  "cn_value =
    [CHR 0xE6, CHR 0x95, CHR 0xB0, CHR 0xE5, CHR 0x80, CHR 0xBC]"

text \<open>U+589E 51CF: "change".\<close>

definition cn_change :: string where
  "cn_change =
    [CHR 0xE5, CHR 0xA2, CHR 0x9E, CHR 0xE5, CHR 0x87, CHR 0x8F]"

text \<open>U+6210 4EA4 91CF: "volume".\<close>

definition cn_volume :: string where
  "cn_volume =
    [CHR 0xE6, CHR 0x88, CHR 0x90, CHR 0xE4, CHR 0xBA, CHR 0xA4, CHR 0xE9, CHR 0x87,
    CHR 0x8F]"

text \<open>U+6210 4EA4 91CF 6392 540D: "volume ranking".\<close>

definition cn_volume_ranking :: string where
  "cn_volume_ranking =
    [CHR 0xE6, CHR 0x88, CHR 0x90, CHR 0xE4, CHR 0xBA, CHR 0xA4, CHR 0xE9, CHR 0x87,
    CHR 0x8F, CHR 0xE6, CHR 0x8E, CHR 0x92, CHR 0xE5, CHR 0x90, CHR 0x8D]"

text \<open>U+591A 5355 6301 4ED3: "long positions".\<close>

definition cn_long_position :: string where
  "cn_long_position =
    [CHR 0xE5, CHR 0xA4, CHR 0x9A, CHR 0xE5, CHR 0x8D, CHR 0x95, CHR 0xE6, CHR 0x8C,
    CHR 0x81, CHR 0xE4, CHR 0xBB, CHR 0x93]"

text \<open>U+7A7A 5355 6301 4ED3: "short positions".\<close>

definition cn_short_position :: string where
  "cn_short_position =
    [CHR 0xE7, CHR 0xA9, CHR 0xBA, CHR 0xE5, CHR 0x8D, CHR 0x95, CHR 0xE6, CHR 0x8C,
    CHR 0x81, CHR 0xE4, CHR 0xBB, CHR 0x93]"

section \<open>Option sentiment (PCR)\<close>

text \<open>
  The Chinese column labels and cell values the two \<open>get_option_pcr\<close> read or write, as
  UTF-8 bytes. The first four are the volume columns of the T-quote table; the others
  belong to the stand-in table the retry loop builds (its volume column is \<open>cn_volume\<close>).
\<close>

text \<open>U+770B 6DA8 5408 7EA6, a hyphen, U+4E70 91CF: "call contract - bid volume".\<close>

definition cn_call_buy_volume :: string where
  "cn_call_buy_volume =
    [CHR 0xE7, CHR 0x9C, CHR 0x8B, CHR 0xE6, CHR 0xB6, CHR 0xA8, CHR 0xE5, CHR 0x90,
    CHR 0x88, CHR 0xE7, CHR 0xBA, CHR 0xA6] @ ''-'' @ [CHR 0xE4, CHR 0xB9, CHR 0xB0,
    CHR 0xE9, CHR 0x87, CHR 0x8F]"

text \<open>U+770B 6DA8 5408 7EA6, a hyphen, U+5356 91CF: "call contract - ask volume".\<close>

definition cn_call_sell_volume :: string where
  "cn_call_sell_volume =
    [CHR 0xE7, CHR 0x9C, CHR 0x8B, CHR 0xE6, CHR 0xB6, CHR 0xA8, CHR 0xE5, CHR 0x90,
    CHR 0x88, CHR 0xE7, CHR 0xBA, CHR 0xA6] @ ''-'' @ [CHR 0xE5, CHR 0x8D, CHR 0x96,
    CHR 0xE9, CHR 0x87, CHR 0x8F]"

text \<open>U+770B 8DCC 5408 7EA6, a hyphen, U+4E70 91CF: "put contract - bid volume".\<close>

definition cn_put_buy_volume :: string where
  "cn_put_buy_volume =
    [CHR 0xE7, CHR 0x9C, CHR 0x8B, CHR 0xE8, CHR 0xB7, CHR 0x8C, CHR 0xE5, CHR 0x90,
    CHR 0x88, CHR 0xE7, CHR 0xBA, CHR 0xA6] @ ''-'' @ [CHR 0xE4, CHR 0xB9, CHR 0xB0,
    CHR 0xE9, CHR 0x87, CHR 0x8F]"

text \<open>U+770B 8DCC 5408 7EA6, a hyphen, U+5356 91CF: "put contract - ask volume".\<close>

definition cn_put_sell_volume :: string where
  "cn_put_sell_volume =
    [CHR 0xE7, CHR 0x9C, CHR 0x8B, CHR 0xE8, CHR 0xB7, CHR 0x8C, CHR 0xE5, CHR 0x90,
    CHR 0x88, CHR 0xE7, CHR 0xBA, CHR 0xA6] @ ''-'' @ [CHR 0xE5, CHR 0x8D, CHR 0x96,
    CHR 0xE9, CHR 0x87, CHR 0x8F]"

text \<open>U+4EE3 7801: "code".\<close>

definition cn_code :: string where
  "cn_code =
    [CHR 0xE4, CHR 0xBB, CHR 0xA3, CHR 0xE7, CHR 0xA0, CHR 0x81]"

text \<open>U+540D 79F0: "name".\<close>

definition cn_name :: string where
  "cn_name =
    [CHR 0xE5, CHR 0x90, CHR 0x8D, CHR 0xE7, CHR 0xA7, CHR 0xB0]"

text \<open>U+7C7B 578B: "type".\<close>

definition cn_kind :: string where
  "cn_kind =
    [CHR 0xE7, CHR 0xB1, CHR 0xBB, CHR 0xE5, CHR 0x9E, CHR 0x8B]"

text \<open>U+6267 884C 4EF7: "strike price".\<close>

definition cn_strike :: string where
  "cn_strike =
    [CHR 0xE6, CHR 0x89, CHR 0xA7, CHR 0xE8, CHR 0xA1, CHR 0x8C, CHR 0xE4, CHR 0xBB,
    CHR 0xB7]"

text \<open>U+6700 65B0 4EF7: "last price".\<close>

definition cn_last_price :: string where
  "cn_last_price =
    [CHR 0xE6, CHR 0x9C, CHR 0x80, CHR 0xE6, CHR 0x96, CHR 0xB0, CHR 0xE4, CHR 0xBB,
    CHR 0xB7]"

text \<open>U+6DA8 8DCC 5E45: "change in percent".\<close>

definition cn_change_pct :: string where
  "cn_change_pct =
    [CHR 0xE6, CHR 0xB6, CHR 0xA8, CHR 0xE8, CHR 0xB7, CHR 0x8C, CHR 0xE5, CHR 0xB9,
    CHR 0x85]"

text \<open>U+6301 4ED3 91CF: "open interest".\<close>

definition cn_open_interest :: string where
  "cn_open_interest =
    [CHR 0xE6, CHR 0x8C, CHR 0x81, CHR 0xE4, CHR 0xBB, CHR 0x93, CHR 0xE9, CHR 0x87,
    CHR 0x8F]"

text \<open>U+8BA4 8D2D: the cell "call" of the type column.\<close>

definition cn_call :: string where
  "cn_call =
    [CHR 0xE8, CHR 0xAE, CHR 0xA4, CHR 0xE8, CHR 0xB4, CHR 0xAD]"

text \<open>U+8BA4 6CBD: the cell "put" of the type column.\<close>

definition cn_put :: string where
  "cn_put =
    [CHR 0xE8, CHR 0xAE, CHR 0xA4, CHR 0xE6, CHR 0xB2, CHR 0xBD]"

text \<open>U+770B 6DA8: the suffix "call" of a stand-in name.\<close>

definition cn_bullish :: string where
  "cn_bullish =
    [CHR 0xE7, CHR 0x9C, CHR 0x8B, CHR 0xE6, CHR 0xB6, CHR 0xA8]"

text \<open>U+770B 8DCC: the suffix "put" of a stand-in name.\<close>

definition cn_bearish :: string where
  "cn_bearish =
    [CHR 0xE7, CHR 0x9C, CHR 0x8B, CHR 0xE8, CHR 0xB7, CHR 0x8C]"

text \<open>U+671F 6743: "option", the ending of every product name.\<close>

definition cn_option :: string where
  "cn_option =
    [CHR 0xE6, CHR 0x9C, CHR 0x9F, CHR 0xE6, CHR 0x9D, CHR 0x83]"

text \<open>
  \<open>commodity_map\<close>, the same in both files: the option product name of a contract
  prefix, each name a product followed by "option"; and the default "gold option"
  (U+9EC4 91D1 671F 6743) of \<open>commodity_map.get\<close>.
\<close>

definition commodity_map :: "(string \<times> string) list" where
  "commodity_map =
    [(''cu'', [CHR 0xE6, CHR 0xB2, CHR 0xAA, CHR 0xE9, CHR 0x93, CHR 0x9C] @ cn_option),
     (''ag'', [CHR 0xE7, CHR 0x99, CHR 0xBD, CHR 0xE9, CHR 0x93, CHR 0xB6] @ cn_option),
     (''au'', [CHR 0xE9, CHR 0xBB, CHR 0x84, CHR 0xE9, CHR 0x87, CHR 0x91] @ cn_option),
     (''al'', [CHR 0xE6, CHR 0xB2, CHR 0xAA, CHR 0xE9, CHR 0x93, CHR 0x9D] @ cn_option),
     (''zn'', [CHR 0xE6, CHR 0xB2, CHR 0xAA, CHR 0xE9, CHR 0x94, CHR 0x8C] @ cn_option),
     (''pb'', [CHR 0xE6, CHR 0xB2, CHR 0xAA, CHR 0xE9, CHR 0x93, CHR 0x85] @ cn_option),
     (''sn'', [CHR 0xE6, CHR 0xB2, CHR 0xAA, CHR 0xE9, CHR 0x94, CHR 0xA1] @ cn_option),
     (''ni'', [CHR 0xE6, CHR 0xB2, CHR 0xAA, CHR 0xE9, CHR 0x95, CHR 0x8D] @ cn_option),
     (''rb'', [CHR 0xE8, CHR 0x9E, CHR 0xBA, CHR 0xE7, CHR 0xBA, CHR 0xB9, CHR 0xE9, CHR 0x92, CHR 0xA2] @ cn_option),
     (''ru'', [CHR 0xE6, CHR 0xA9, CHR 0xA1, CHR 0xE8, CHR 0x83, CHR 0xB6] @ cn_option),
     (''br'', [CHR 0xE6, CHR 0xA9, CHR 0xA1, CHR 0xE8, CHR 0x83, CHR 0xB6] @ cn_option),
     (''hc'', [CHR 0xE7, CHR 0x83, CHR 0xAD, CHR 0xE8, CHR 0xBD, CHR 0xA7, CHR 0xE5, CHR 0x8D, CHR 0xB7, CHR 0xE6, CHR 0x9D, CHR 0xBF] @ cn_option),
     (''bu'', [CHR 0xE6, CHR 0xB2, CHR 0xA5, CHR 0xE9, CHR 0x9D, CHR 0x92] @ cn_option),
     (''sc'', [CHR 0xE5, CHR 0x8E, CHR 0x9F, CHR 0xE6, CHR 0xB2, CHR 0xB9] @ cn_option),
     (''nr'', [CHR 0xE6, CHR 0xA9, CHR 0xA1, CHR 0xE8, CHR 0x83, CHR 0xB6] @ cn_option),
     (''i'', [CHR 0xE9, CHR 0x93, CHR 0x81, CHR 0xE7, CHR 0x9F, CHR 0xBF, CHR 0xE7, CHR 0x9F, CHR 0xB3] @ cn_option),
     (''j'', [CHR 0xE7, CHR 0x84, CHR 0xA6, CHR 0xE7, CHR 0x82, CHR 0xAD] @ cn_option),
     (''jm'', [CHR 0xE7, CHR 0x84, CHR 0xA6, CHR 0xE7, CHR 0x85, CHR 0xA4] @ cn_option),
     (''zc'', [CHR 0xE5, CHR 0x8A, CHR 0xA8, CHR 0xE5, CHR 0x8A, CHR 0x9B, CHR 0xE7, CHR 0x85, CHR 0xA4] @ cn_option),
     (''l'', [CHR 0xE8, CHR 0x81, CHR 0x9A, CHR 0xE4, CHR 0xB9, CHR 0x99, CHR 0xE7, CHR 0x83, CHR 0xAF] @ cn_option),
     (''pvc'', [CHR 0xE8, CHR 0x81, CHR 0x9A, CHR 0xE6, CHR 0xB0, CHR 0xAF, CHR 0xE4, CHR 0xB9, CHR 0x99, CHR 0xE7, CHR 0x83, CHR 0xAF] @ cn_option),
     (''pp'', [CHR 0xE8, CHR 0x81, CHR 0x9A, CHR 0xE4, CHR 0xB8, CHR 0x99, CHR 0xE7, CHR 0x83, CHR 0xAF] @ cn_option),
     (''ma'', [CHR 0xE7, CHR 0x94, CHR 0xB2, CHR 0xE9, CHR 0x86, CHR 0x87] @ cn_option),
     (''pg'', [CHR 0xE6, CHR 0xB6, CHR 0xB2, CHR 0xE5, CHR 0x8C, CHR 0x96, CHR 0xE7, CHR 0x9F, CHR 0xB3, CHR 0xE6, CHR 0xB2, CHR 0xB9, CHR 0xE6, CHR 0xB0, CHR 0x94] @ cn_option),
     (''eb'', [CHR 0xE8, CHR 0x8B, CHR 0xAF, CHR 0xE4, CHR 0xB9, CHR 0x99, CHR 0xE7, CHR 0x83, CHR 0xAF] @ cn_option),
     (''eg'', [CHR 0xE4, CHR 0xB9, CHR 0x99, CHR 0xE4, CHR 0xBA, CHR 0x8C, CHR 0xE9, CHR 0x86, CHR 0x87] @ cn_option),
     (''a'', [CHR 0xE8, CHR 0xB1, CHR 0x86, CHR 0xE7, CHR 0xB2, CHR 0x95] @ cn_option),
     (''b'', [CHR 0xE8, CHR 0xB1, CHR 0x86, CHR 0xE7, CHR 0xB2, CHR 0x95] @ cn_option),
     (''c'', [CHR 0xE7, CHR 0x8E, CHR 0x89, CHR 0xE7, CHR 0xB1, CHR 0xB3] @ cn_option),
     (''cs'', [CHR 0xE7, CHR 0x8E, CHR 0x89, CHR 0xE7, CHR 0xB1, CHR 0xB3, CHR 0xE6, CHR 0xB7, CHR 0x80, CHR 0xE7, CHR 0xB2, CHR 0x89] @ cn_option),
     (''m'', [CHR 0xE8, CHR 0xB1, CHR 0x86, CHR 0xE7, CHR 0xB2, CHR 0x95] @ cn_option),
     (''y'', [CHR 0xE8, CHR 0xB1, CHR 0x86, CHR 0xE6, CHR 0xB2, CHR 0xB9] @ cn_option),
     (''p'', [CHR 0xE6, CHR 0xA3, CHR 0x95, CHR 0xE6, CHR 0xA6, CHR 0x88, CHR 0xE6, CHR 0xB2, CHR 0xB9] @ cn_option),
     (''jd'', [CHR 0xE9, CHR 0xB8, CHR 0xA1, CHR 0xE8, CHR 0x9B, CHR 0x8B] @ cn_option),
     (''rm'', [CHR 0xE8, CHR 0x8F, CHR 0x9C, CHR 0xE7, CHR 0xB1, CHR 0xBD, CHR 0xE7, CHR 0xB2, CHR 0x95] @ cn_option),
     (''rs'', [CHR 0xE8, CHR 0x8F, CHR 0x9C, CHR 0xE7, CHR 0xB1, CHR 0xBD] @ cn_option),
     (''oi'', [CHR 0xE8, CHR 0x8F, CHR 0x9C, CHR 0xE7, CHR 0xB1, CHR 0xBD, CHR 0xE6, CHR 0xB2, CHR 0xB9] @ cn_option),
     (''sr'', [CHR 0xE7, CHR 0x99, CHR 0xBD, CHR 0xE7, CHR 0xB3, CHR 0x96] @ cn_option),
     (''cf'', [CHR 0xE6, CHR 0xA3, CHR 0x89, CHR 0xE8, CHR 0x8A, CHR 0xB1] @ cn_option),
     (''fg'', [CHR 0xE7, CHR 0x8E, CHR 0xBB, CHR 0xE7, CHR 0x92, CHR 0x83] @ cn_option),
     (''pf'', [CHR 0xE7, CHR 0x9F, CHR 0xAD, CHR 0xE7, CHR 0xBA, CHR 0xA4] @ cn_option),
     (''r'', [CHR 0xE6, CHR 0xA9, CHR 0xA1, CHR 0xE8, CHR 0x83, CHR 0xB6] @ cn_option),
     (''s'', [CHR 0xE7, CHR 0xA1, CHR 0x85] @ cn_option)]"

definition default_commodity :: string where
  "default_commodity = [CHR 0xE9, CHR 0xBB, CHR 0x84, CHR 0xE9, CHR 0x87, CHR 0x91] @ cn_option"

text \<open>
  The option table: each column is numeric or text, and all columns have the same
  number of rows. \<open>df.empty\<close> holds when there is no column or no row. The second
  component of a column's sum is what \<open>Series.sum\<close> returns: a number for a numeric
  column (a NaN is skipped), the concatenation of the cells for a column of text.
\<close>

datatype ocolumn = Numbers series | Texts "string list"

type_synonym option_frame = "(string \<times> ocolumn) list"

datatype total = TNum fl | TText string

fun ocolumn_length :: "ocolumn \<Rightarrow> nat" where
  "ocolumn_length (Numbers xs) = length xs"
| "ocolumn_length (Texts ts) = length ts"

definition option_frame_empty :: "option_frame \<Rightarrow> bool" where
  "option_frame_empty df = (case df of [] \<Rightarrow> True | (label, col) # rest \<Rightarrow> ocolumn_length col = 0)"

definition ocolumn_of :: "option_frame \<Rightarrow> string \<Rightarrow> py_error + ocolumn" where
  "ocolumn_of df label = (case map_of df label of None \<Rightarrow> Inl KeyError | Some col \<Rightarrow> Inr col)"

fun ocolumn_add :: "ocolumn \<Rightarrow> ocolumn \<Rightarrow> py_error + ocolumn" where
  "ocolumn_add (Numbers xs) (Numbers ys) = Inr (Numbers (map2 fl_add xs ys))"
| "ocolumn_add (Texts xs) (Texts ys) = Inr (Texts (map2 append xs ys))"
| "ocolumn_add x y = Inl TypeError"

definition sum_skipna :: "series \<Rightarrow> fl" where
  "sum_skipna xs = foldl fl_add (Fin 0) (filter (\<lambda>x. x \<noteq> NaN) xs)"

fun ocolumn_sum :: "ocolumn \<Rightarrow> total" where
  "ocolumn_sum (Numbers xs) = TNum (sum_skipna xs)"
| "ocolumn_sum (Texts ts) = (if ts = [] then TNum (Fin 0) else TText (concat ts))"

text \<open>\<open>(df[a] + df[b]).sum()\<close>.\<close>

definition pair_total :: "option_frame \<Rightarrow> string \<Rightarrow> string \<Rightarrow> py_error + total" where
  "pair_total df a b =
    (case ocolumn_of df a of
       Inl e \<Rightarrow> Inl e
     | Inr x \<Rightarrow>
        (case ocolumn_of df b of
           Inl e \<Rightarrow> Inl e
         | Inr y \<Rightarrow> (case ocolumn_add x y of Inl e \<Rightarrow> Inl e | Inr s \<Rightarrow> Inr (ocolumn_sum s))))"

text \<open>\<open>df[df[kind] == value][volume].sum()\<close>: the sum over the rows whose kind is the value.\<close>

fun kind_mask :: "ocolumn \<Rightarrow> string \<Rightarrow> bool list" where
  "kind_mask (Texts ts) v = map (\<lambda>t. t = v) ts"
| "kind_mask (Numbers xs) v = map (\<lambda>x. False) xs"

fun masked :: "bool list \<Rightarrow> ocolumn \<Rightarrow> ocolumn" where
  "masked keep (Numbers xs) = Numbers (map snd (filter fst (zip keep xs)))"
| "masked keep (Texts ts) = Texts (map snd (filter fst (zip keep ts)))"

definition kind_total :: "option_frame \<Rightarrow> string \<Rightarrow> py_error + total" where
  "kind_total df v =
    (case ocolumn_of df cn_kind of
       Inl e \<Rightarrow> Inl e
     | Inr k \<Rightarrow>
        (case ocolumn_of df cn_volume of
           Inl e \<Rightarrow> Inl e
         | Inr vol \<Rightarrow> Inr (ocolumn_sum (masked (kind_mask k v) vol))))"

text \<open>Comparison and division of two sums; a text operand raises \<open>TypeError\<close>.\<close>

fun total_is_zero :: "total \<Rightarrow> bool" where
  "total_is_zero (TNum x) = (x = Fin 0)"
| "total_is_zero (TText t) = False"

fun total_positive :: "total \<Rightarrow> py_error + bool" where
  "total_positive (TNum x) = Inr (fl_less (Fin 0) x)"
| "total_positive (TText t) = Inl TypeError"

fun total_div :: "total \<Rightarrow> total \<Rightarrow> py_error + fl" where
  "total_div (TNum x) (TNum y) = Inr (fl_div x y)"
| "total_div x y = Inl TypeError"

text \<open>
  The external option endpoint \<open>ak.option_commodity_contract_table_sina\<close>: what the
  call number \<open>n\<close> (from 0) for a product name and a contract answers. It raises, or
  returns \<open>None\<close> or a table.
\<close>

datatype option_api_result = OptionRaises | OptionReturns "option_frame option"

type_synonym option_api = "string \<Rightarrow> string \<Rightarrow> nat \<Rightarrow> option_api_result"

definition mock_option_frame :: "string \<Rightarrow> string \<Rightarrow> option_frame" where
  "mock_option_frame symbol commodity_name =
    [(cn_code, Texts [symbol @ ''C4500'', symbol @ ''P4500'']),
     (cn_name, Texts [commodity_name @ cn_bullish, commodity_name @ cn_bearish]),
     (cn_kind, Texts [cn_call, cn_put]),
     (cn_strike, Numbers [Fin 4500, Fin 4500]),
     (cn_last_price, Numbers [Fin 100, Fin 80]),
     (cn_change_pct, Numbers [Fin 5, Fin (- 3)]),
     (cn_volume, Numbers [Fin 1000, Fin 800]),
     (cn_open_interest, Numbers [Fin 10000, Fin 8000])]"

definition max_retries :: nat where
  "max_retries = 3"

definition none_or_empty :: "option_frame option \<Rightarrow> bool" where
  "none_or_empty option_df = (case option_df of None \<Rightarrow> True | Some df \<Rightarrow> option_frame_empty df)"

text \<open>
  The retry loop, the same in both files: \<open>retry_count\<close> and \<open>option_df\<close> are its state.
  An attempt that raises, or that returns \<open>None\<close> or an empty table, goes to the
  handler, which counts the attempt and, after the last one, puts the stand-in table
  in place of the data.
\<close>

function retry_loop ::
  "option_api \<Rightarrow> string \<Rightarrow> string \<Rightarrow> nat \<Rightarrow> option_frame option \<Rightarrow> option_frame option" where
  "retry_loop api commodity_name symbol retry_count option_df =
    (if retry_count < max_retries \<and> none_or_empty option_df then
       (let fetched = (case api commodity_name symbol retry_count of
                         OptionRaises \<Rightarrow> option_df
                       | OptionReturns r \<Rightarrow> r)
        in if api commodity_name symbol retry_count \<noteq> OptionRaises \<and> \<not> none_or_empty fetched
           then retry_loop api commodity_name symbol (retry_count + 1) fetched
           else if retry_count + 1 < max_retries
           then retry_loop api commodity_name symbol (retry_count + 1) fetched
           else retry_loop api commodity_name symbol (retry_count + 1)
                  (Some (mock_option_frame symbol commodity_name)))
     else option_df)"
  by pat_completeness auto
termination
  by (relation "measure (\<lambda>(api, commodity_name, symbol, retry_count, option_df).
        max_retries - retry_count)") auto

declare retry_loop.simps [simp del]

text \<open>\<open>symbol.lower().split('.')[-1]\<close>: the lower-cased part after the last dot.\<close>

definition contract_of :: "string \<Rightarrow> string" where
  "contract_of symbol = rev (takeWhile (\<lambda>c. c \<noteq> CHR ''.'') (rev (lower symbol)))"

definition commodity_name_of :: "string \<Rightarrow> string" where
  "commodity_name_of contract =
    (case map_of commodity_map (take 2 contract) of None \<Rightarrow> default_commodity | Some n \<Rightarrow> n)"

datatype pcr_kind = Options | OpenInterest | Default

record pcr_result =
  pcr :: fl
  pcr_type :: pcr_kind

text \<open>
  \<open>get_option_pcr\<close> of \<open>data_utils.py\<close>. The volumes come from the four T-quote columns;
  when reading them raises, from the type and volume columns of the stand-in table.
  Any other exception ends in the outer handler, which answers a PCR of 0 of type
  open interest. The result of a zero put volume is a PCR of 0; otherwise the PCR is
  call volume divided by put volume.
\<close>

definition get_option_pcr :: "option_api \<Rightarrow> string \<Rightarrow> pcr_result" where
  "get_option_pcr api symbol0 =
    (let symbol = contract_of symbol0;
         commodity_name = commodity_name_of symbol;
         option_df = retry_loop api commodity_name symbol 0 None;
         failed = \<lparr>pcr = Fin 0, pcr_type = OpenInterest\<rparr>
     in case option_df of
          None \<Rightarrow> failed
        | Some df \<Rightarrow>
           if option_frame_empty df then failed
           else
             (let direct =
                    (case pair_total df cn_call_buy_volume cn_call_sell_volume of
                       Inl e \<Rightarrow> Inl e
                     | Inr call_volume \<Rightarrow>
                        (case pair_total df cn_put_buy_volume cn_put_sell_volume of
                           Inl e \<Rightarrow> Inl e
                         | Inr put_volume \<Rightarrow> Inr (call_volume, put_volume)));
                  volumes =
                    (case direct of
                       Inr v \<Rightarrow> Inr v
                     | Inl e \<Rightarrow>
                        (case kind_total df cn_call of
                           Inl e' \<Rightarrow> Inl e'
                         | Inr call_volume \<Rightarrow>
                            (case kind_total df cn_put of
                               Inl e' \<Rightarrow> Inl e'
                             | Inr put_volume \<Rightarrow> Inr (call_volume, put_volume))))
              in case volumes of
                   Inl e \<Rightarrow> failed
                 | Inr (call_volume, put_volume) \<Rightarrow>
                    if total_is_zero put_volume then \<lparr>pcr = Fin 0, pcr_type = Options\<rparr>
                    else (case total_div call_volume put_volume of
                            Inl e \<Rightarrow> failed
                          | Inr r \<Rightarrow> \<lparr>pcr = r, pcr_type = Options\<rparr>)))"

text \<open>
  \<open>get_option_pcr\<close> of \<open>dashboard_v6.py\<close>. The volumes come from the four T-quote columns
  only. With a positive call volume the PCR is put volume divided by call volume, and
  1 otherwise. Any exception ends in the handler, which asks the minute-bar endpoint
  for the open interest: \<open>oi_change_rate\<close> is the mean percentage change the handler
  computes from it, \<open>None\<close> when that attempt fails or finds no open-interest column.
\<close>

definition get_option_pcr_v6 :: "option_api \<Rightarrow> fl option \<Rightarrow> string \<Rightarrow> pcr_result" where
  "get_option_pcr_v6 api oi_change_rate symbol0 =
    (let symbol = contract_of symbol0;
         commodity_name = commodity_name_of symbol;
         option_df = retry_loop api commodity_name symbol 0 None;
         failed = (case oi_change_rate of
                     Some rate \<Rightarrow> \<lparr>pcr = rate, pcr_type = OpenInterest\<rparr>
                   | None \<Rightarrow> \<lparr>pcr = Fin 1, pcr_type = Default\<rparr>)
     in case option_df of
          None \<Rightarrow> failed
        | Some df \<Rightarrow>
           if option_frame_empty df then failed
           else
             (case pair_total df cn_call_buy_volume cn_call_sell_volume of
                Inl e \<Rightarrow> failed
              | Inr call_volume \<Rightarrow>
                 (case pair_total df cn_put_buy_volume cn_put_sell_volume of
                    Inl e \<Rightarrow> failed
                  | Inr put_volume \<Rightarrow>
                     (case total_positive call_volume of
                        Inl e \<Rightarrow> failed
                      | Inr True \<Rightarrow>
                         (case total_div put_volume call_volume of
                            Inl e \<Rightarrow> failed
                          | Inr r \<Rightarrow> \<lparr>pcr = r, pcr_type = Options\<rparr>)
                      | Inr False \<Rightarrow> \<lparr>pcr = Fin 1, pcr_type = Options\<rparr>))))"

text \<open>The glossary's PCR: the put/call ratio.\<close>

definition put_call_ratio :: "real \<Rightarrow> real \<Rightarrow> real" where
  "put_call_ratio put_volume call_volume = put_volume / call_volume"

section \<open>Dates and times\<close>

text \<open>
  A \<open>datetime\<close> is its proleptic Gregorian day number (\<open>toordinal\<close>: day 1 is 1 January
  of year 1) and its time of day. \<open>weekday\<close> is Monday = 0 to Sunday = 6, and subtracting
  a \<open>timedelta\<close> of whole days raises \<open>OverflowError\<close> before day 1.
\<close>

record datetime =
  ordinal :: int
  hour :: nat
  minute :: nat
  second :: nat
  microsecond :: nat

definition weekday_of :: "int \<Rightarrow> int" where
  "weekday_of day = (day + 6) mod 7"

definition weekday :: "datetime \<Rightarrow> int" where
  "weekday t = weekday_of (ordinal t)"

definition minus_days :: "datetime \<Rightarrow> nat \<Rightarrow> py_error + datetime" where
  "minus_days t days =
    (if ordinal t - int days < 1 then Inl OverflowError
     else Inr (t\<lparr>ordinal := ordinal t - int days\<rparr>))"

text \<open>\<open>a < b\<close> on two \<open>datetime\<close> values.\<close>

definition dt_less :: "datetime \<Rightarrow> datetime \<Rightarrow> bool" where
  "dt_less a b =
    (ordinal a < ordinal b \<or> ordinal a = ordinal b \<and>
      (hour a < hour b \<or> hour a = hour b \<and>
        (minute a < minute b \<or> minute a = minute b \<and>
          (second a < second b \<or> second a = second b \<and> microsecond a < microsecond b))))"

text \<open>
  The calendar date of a day number, by the algorithm of Python's \<open>datetime\<close> module
  (\<open>_ord2ymd\<close>), and \<open>strftime('%Y%m%d')\<close>: four digits of the year, two of the month,
  two of the day.
\<close>

definition DAYS_BEFORE_MONTH :: "nat list" where
  "DAYS_BEFORE_MONTH = [0, 0, 31, 59, 90, 120, 151, 181, 212, 243, 273, 304, 334]"

definition DAYS_IN_MONTH :: "nat list" where
  "DAYS_IN_MONTH = [0, 31, 28, 31, 30, 31, 30, 31, 31, 30, 31, 30, 31]"

definition ord2ymd :: "nat \<Rightarrow> nat \<times> nat \<times> nat" where
  "ord2ymd day =
    (let n0 = day - 1;
         n400 = n0 div 146097; r400 = n0 mod 146097;
         n100 = r400 div 36524; r100 = r400 mod 36524;
         n4 = r100 div 1461; r4 = r100 mod 1461;
         n1 = r4 div 365; n = r4 mod 365;
         year = n400 * 400 + 1 + n100 * 100 + n4 * 4 + n1
     in if n1 = 4 \<or> n100 = 4 then (year - 1, 12, 31)
        else
          (let leapyear = (n1 = 3 \<and> (n4 \<noteq> 24 \<or> n100 = 3));
               month = (n + 50) div 32;
               preceding = DAYS_BEFORE_MONTH ! month + (if 2 < month \<and> leapyear then 1 else 0)
           in if n < preceding then
                (let month' = month - 1;
                     preceding' = preceding
                       - (DAYS_IN_MONTH ! month' + (if month' = 2 \<and> leapyear then 1 else 0))
                 in (year, month', n - preceding' + 1))
              else (year, month, n - preceding + 1)))"

definition digit :: "nat \<Rightarrow> char" where
  "digit d = ''0123456789'' ! (d mod 10)"

definition strftime_Ymd :: "datetime \<Rightarrow> string" where
  "strftime_Ymd t =
    (case ord2ymd (nat (ordinal t)) of
       (y, m, d) \<Rightarrow>
         [digit (y div 1000), digit (y div 100), digit (y div 10), digit y,
          digit (m div 10), digit m, digit (d div 10), digit d])"

section \<open>Position-ranking tables\<close>

text \<open>
  A \<open>DataFrame\<close> of a ranking endpoint: the number of rows and the columns in order,
  each a label with its cells. A cell is modelled by its \<open>str\<close> rendering, the only
  thing the programs read from one. Column labels are strings and may repeat.
  \<open>df.empty\<close> holds when there is no row or no column; \<open>len(df)\<close> is the number of rows.
\<close>

record dataframe =
  nrows :: nat
  cols :: "(string \<times> string list) list"

definition empty_frame :: dataframe where
  "empty_frame = \<lparr>nrows = 0, cols = []\<rparr>"

definition columns :: "dataframe \<Rightarrow> string list" where
  "columns df = map fst (cols df)"

definition df_empty :: "dataframe \<Rightarrow> bool" where
  "df_empty df = (nrows df = 0 \<or> cols df = [])"

text \<open>
  \<open>df[labels]\<close> with a list of labels: \<open>KeyError\<close> when a label is missing; otherwise, for
  each label in turn, every column that carries it.
\<close>

definition select_columns :: "dataframe \<Rightarrow> string list \<Rightarrow> py_error + dataframe" where
  "select_columns df labels =
    (if list_all (\<lambda>l. l \<in> set (columns df)) labels
     then Inr (df\<lparr>cols := concat (map (\<lambda>l. filter (\<lambda>c. fst c = l) (cols df)) labels)\<rparr>)
     else Inl KeyError)"

text \<open>\<open>df.columns = labels\<close>: \<open>ValueError\<close> unless there are as many labels as columns.\<close>

definition set_columns :: "dataframe \<Rightarrow> string list \<Rightarrow> py_error + dataframe" where
  "set_columns df labels =
    (if length labels = length (cols df)
     then Inr (df\<lparr>cols := zip labels (map snd (cols df))\<rparr>)
     else Inl ValueError)"

definition df_head :: "nat \<Rightarrow> dataframe \<Rightarrow> dataframe" where
  "df_head n df = \<lparr>nrows = min n (nrows df), cols = map (\<lambda>(l, cells). (l, take n cells)) (cols df)\<rparr>"

text \<open>
  \<open>df[col]\<close> with one label, followed by \<open>.unique()\<close>: a label carried by several columns
  selects a table, which has no \<open>unique\<close>, so the call raises \<open>AttributeError\<close>.
\<close>

definition column_cells :: "dataframe \<Rightarrow> string \<Rightarrow> py_error + string list" where
  "column_cells df col =
    (case filter (\<lambda>c. fst c = col) (cols df) of
       [] \<Rightarrow> Inl KeyError
     | [c] \<Rightarrow> Inr (snd c)
     | c # c' # cs \<Rightarrow> Inl AttributeError)"

fun unique :: "string list \<Rightarrow> string list" where
  "unique [] = []"
| "unique (x # xs) = x # unique (filter (\<lambda>y. y \<noteq> x) xs)"

text \<open>
  What one call of a ranking endpoint (\<open>ak.get_shfe_rank_table\<close> and its siblings) does
  for a date string and a product code: it raises, or returns \<open>None\<close>, or returns a
  dictionary from contract to table, an association list in the dictionary's order.
\<close>

datatype api_result = Raises | Returns "(string \<times> dataframe) list option"

type_synonym rank_api = "exchange \<Rightarrow> string \<Rightarrow> string \<Rightarrow> api_result"

text \<open>
  The error messages of \<open>get_holding_rank_data\<close>, and its result: the table, the date
  of the data and the error message, \<open>None\<close> standing for Python's \<open>None\<close>.
\<close>

datatype err_msg =
    UnsupportedExchange "exchange option"
  | NoRankData string
  | MissingVolumeColumns
  | MissingLongColumns
  | MissingShortColumns
  | InvalidDataType
  | FetchFailed py_error

type_synonym rank_result = "dataframe \<times> string option \<times> err_msg option"

definition max_days :: nat where
  "max_days = 30"

definition unified_columns :: "string list" where
  "unified_columns = [cn_rank, cn_member, cn_value, cn_change]"

text \<open>
  The backward walk over the day offsets, the same loop in both files: \<open>attempt\<close> is the
  body of the inner \<open>try\<close> for a date string, \<open>None\<close> when it continues with the next
  day and the table when it breaks out of the loop. The first component of the result
  is the log of the days for which the endpoint was called, in the order of the calls;
  the second is the exception that left the loop, or the date string and table found.
\<close>

fun walk ::
  "(string \<Rightarrow> dataframe option) \<Rightarrow> datetime \<Rightarrow> nat list
    \<Rightarrow> int list \<times> (py_error + (string \<times> dataframe) option)" where
  "walk attempt now [] = ([], Inr None)"
| "walk attempt now (day_offset # rest) =
    (case minus_days now day_offset of
       Inl e \<Rightarrow> ([], Inl e)
     | Inr target_date \<Rightarrow>
        if weekday target_date = 5 \<or> weekday target_date = 6 then walk attempt now rest
        else
          (case attempt (strftime_Ymd target_date) of
             Some df \<Rightarrow> ([ordinal target_date], Inr (Some (strftime_Ymd target_date, df)))
           | None \<Rightarrow>
              (case walk attempt now rest of
                 (queried, outcome) \<Rightarrow> (ordinal target_date # queried, outcome))))"

text \<open>\<open>rank_df = rank_df[labels]\<close> followed by \<open>rank_df.columns = [...]\<close>.\<close>

definition pick :: "dataframe \<Rightarrow> string list \<Rightarrow> py_error + dataframe" where
  "pick df labels =
    (case select_columns df labels of
       Inl e \<Rightarrow> Inl e
     | Inr selected \<Rightarrow> set_columns selected unified_columns)"

section \<open>Position-ranking fetch of \<open>data_utils.py\<close>\<close>

text \<open>
  The body of the inner \<open>try\<close> of \<open>data_utils.py\<close> for one day: an exception, \<open>None\<close> or an
  empty dictionary continue with the next day; otherwise the table of the requested
  contract is taken, or that of the first contract of the answer.
\<close>

definition try_day :: "api_result \<Rightarrow> string \<Rightarrow> dataframe option" where
  "try_day result symbol =
    (case result of
       Raises \<Rightarrow> None
     | Returns None \<Rightarrow> None
     | Returns (Some tables) \<Rightarrow>
        if tables = [] then None
        else
          (case map_of tables symbol of
             Some df \<Rightarrow> Some df
           | None \<Rightarrow>
              (case map fst tables of
                 [] \<Rightarrow> None
               | contract # others \<Rightarrow> map_of tables contract)))"

text \<open>
  The normalisation of \<open>data_utils.py\<close>: an exception (\<open>Inl\<close>), an error message, or the
  table with the four unified columns.
\<close>

definition standardize :: "dataframe \<Rightarrow> string \<Rightarrow> py_error + (err_msg + dataframe)" where
  "standardize rank_df data_type =
    (if data_type = cn_volume_ranking \<or> data_type = cn_volume then
       (if ''vol_party_name'' \<in> set (columns rank_df) \<and> ''vol'' \<in> set (columns rank_df) then
          (case pick rank_df [''rank'', ''vol_party_name'', ''vol'', ''vol_chg''] of
             Inl e \<Rightarrow> Inl e
           | Inr df \<Rightarrow> Inr (Inr df))
        else Inr (Inl MissingVolumeColumns))
     else if data_type = cn_long_position then
       (if ''long_party_name'' \<in> set (columns rank_df)
           \<and> ''long_open_interest'' \<in> set (columns rank_df) then
          (case pick rank_df [''rank'', ''long_party_name'', ''long_open_interest'',
                              ''long_open_interest_chg''] of
             Inl e \<Rightarrow> Inl e
           | Inr df \<Rightarrow> Inr (Inr df))
        else Inr (Inl MissingLongColumns))
     else if data_type = cn_short_position then
       (if ''short_party_name'' \<in> set (columns rank_df)
           \<and> ''short_open_interest'' \<in> set (columns rank_df) then
          (case pick rank_df [''rank'', ''short_party_name'', ''short_open_interest'',
                              ''short_open_interest_chg''] of
             Inl e \<Rightarrow> Inl e
           | Inr df \<Rightarrow> Inr (Inr df))
        else Inr (Inl MissingShortColumns))
     else Inr (Inl InvalidDataType))"

text \<open>
  \<open>get_holding_rank_data\<close> of \<open>data_utils.py\<close>, as a function of the endpoints and of the
  clock reading \<open>now\<close> it takes once. It returns the log of the days queried and the
  triple the caller gets. The walk starts at offset 0 (\<open>range(max_days)\<close>). Every
  exception ends in the outer handler, which returns an empty table and a message.
\<close>

definition get_holding_rank_data ::
  "rank_api \<Rightarrow> datetime \<Rightarrow> string \<Rightarrow> string \<Rightarrow> int list \<times> rank_result" where
  "get_holding_rank_data api now symbol data_type =
    (case get_exchange_by_symbol symbol of
       None \<Rightarrow> ([], (empty_frame, None, Some (UnsupportedExchange None)))
     | Some exchange \<Rightarrow>
        (let variety_code = product_code_of symbol in
         case walk (\<lambda>target_date_str. try_day (api exchange target_date_str variety_code) symbol)
                now [0..<max_days] of
           (queried, outcome) \<Rightarrow>
             (queried,
              case outcome of
                Inl e \<Rightarrow> (empty_frame, None, Some (FetchFailed e))
              | Inr None \<Rightarrow> (empty_frame, None, Some (NoRankData symbol))
              | Inr (Some (data_date, rank_df)) \<Rightarrow>
                 if df_empty rank_df then (empty_frame, None, Some (NoRankData symbol))
                 else
                   (case standardize rank_df data_type of
                      Inl e \<Rightarrow> (empty_frame, None, Some (FetchFailed e))
                    | Inr (Inl msg) \<Rightarrow> (empty_frame, None, Some msg)
                    | Inr (Inr df) \<Rightarrow> (df_head 20 df, Some data_date, None)))))"

section \<open>Position-ranking fetch of \<open>dashboard_v6.py\<close>\<close>

text \<open>
  The search for a date column of the dashboard: the loop over the column labels, which
  sets \<open>date_field_found\<close> and stops at the first date column whose first value
  contains the requested date.
\<close>

fun date_field_found :: "dataframe \<Rightarrow> string \<Rightarrow> string list \<Rightarrow> py_error + bool" where
  "date_field_found df target_date_str [] = Inr False"
| "date_field_found df target_date_str (col # rest) =
    (if py_in ''date'' (lower col) \<or> py_in ''datetime'' (lower col) then
       (case column_cells df col of
          Inl e \<Rightarrow> Inl e
        | Inr cells \<Rightarrow>
           (case unique cells of
              [] \<Rightarrow> date_field_found df target_date_str rest
            | first_date # later \<Rightarrow>
               if py_in target_date_str first_date then Inr True
               else date_field_found df target_date_str rest))
     else date_field_found df target_date_str rest)"

text \<open>
  The loop over the other contracts of an answer: the first table that is not empty and
  has at least five rows.
\<close>

fun first_usable :: "(string \<times> dataframe) list \<Rightarrow> string list \<Rightarrow> dataframe option" where
  "first_usable tables [] = None"
| "first_usable tables (contract # rest) =
    (case map_of tables contract of
       None \<Rightarrow> first_usable tables rest
     | Some df \<Rightarrow>
        if \<not> df_empty df \<and> 5 \<le> nrows df then Some df else first_usable tables rest)"

text \<open>The body of the inner \<open>try\<close> of the dashboard for one day.\<close>

definition try_day_v6 :: "api_result \<Rightarrow> string \<Rightarrow> string \<Rightarrow> dataframe option" where
  "try_day_v6 result symbol target_date_str =
    (case result of
       Raises \<Rightarrow> None
     | Returns None \<Rightarrow> None
     | Returns (Some tables) \<Rightarrow>
        if tables = [] then None
        else
          (case map_of tables symbol of
             Some df \<Rightarrow>
               if \<not> df_empty df then
                 (if 5 \<le> nrows df then
                    (case date_field_found df target_date_str (columns df) of
                       Inl e \<Rightarrow> None
                     | Inr found \<Rightarrow>
                        if found \<or> \<not> list_ex (\<lambda>col. py_in ''date'' (lower col)) (columns df)
                        then Some df
                        else None)
                  else None)
               else None
           | None \<Rightarrow> first_usable tables (map fst tables)))"

text \<open>
  The ordered alternatives of the dashboard's normalisation: the first list of labels
  that the table has in full is picked; \<open>None\<close> when there is none.
\<close>

fun try_possible :: "dataframe \<Rightarrow> string list list \<Rightarrow> (py_error + dataframe) option" where
  "try_possible rank_df [] = None"
| "try_possible rank_df (labels # rest) =
    (if list_all (\<lambda>col. col \<in> set (columns rank_df)) labels then Some (pick rank_df labels)
     else try_possible rank_df rest)"

definition standardize_v6 :: "dataframe \<Rightarrow> string \<Rightarrow> py_error + (err_msg + dataframe)" where
  "standardize_v6 rank_df data_type =
    (if data_type = cn_volume_ranking \<or> data_type = cn_volume then
       (if ''vol_party_name'' \<in> set (columns rank_df) \<and> ''vol'' \<in> set (columns rank_df) then
          (case pick rank_df [''rank'', ''vol_party_name'', ''vol'', ''vol_chg''] of
             Inl e \<Rightarrow> Inl e
           | Inr df \<Rightarrow> Inr (Inr df))
        else
          (case try_possible rank_df
                  [ [''rank'', ''volume_member'', ''volume'', ''volume_change''],
                   [''rank'', ''member'', ''volume'', ''change''],
                   [cn_rank, cn_member, cn_volume, cn_change]] of
             None \<Rightarrow> Inr (Inl MissingVolumeColumns)
           | Some (Inl e) \<Rightarrow> Inl e
           | Some (Inr df) \<Rightarrow> Inr (Inr df)))
     else if data_type = cn_long_position then
       (if ''long_party_name'' \<in> set (columns rank_df)
           \<and> ''long_open_interest'' \<in> set (columns rank_df) then
          (case pick rank_df [''rank'', ''long_party_name'', ''long_open_interest'',
                              ''long_open_interest_chg''] of
             Inl e \<Rightarrow> Inl e
           | Inr df \<Rightarrow> Inr (Inr df))
        else
          (case try_possible rank_df
                  [ [''rank'', ''long_member'', ''long_position'', ''long_position_change''],
                   [''rank'', ''member'', ''long'', ''long_change''],
                   [cn_rank, cn_member, cn_long_position, cn_change]] of
             None \<Rightarrow> Inr (Inl MissingLongColumns)
           | Some (Inl e) \<Rightarrow> Inl e
           | Some (Inr df) \<Rightarrow> Inr (Inr df)))
     else if data_type = cn_short_position then
       (if ''short_party_name'' \<in> set (columns rank_df)
           \<and> ''short_open_interest'' \<in> set (columns rank_df) then
          (case pick rank_df [''rank'', ''short_party_name'', ''short_open_interest'',
                              ''short_open_interest_chg''] of
             Inl e \<Rightarrow> Inl e
           | Inr df \<Rightarrow> Inr (Inr df))
        else
          (case try_possible rank_df
                  [ [''rank'', ''short_member'', ''short_position'', ''short_position_change''],
                   [''rank'', ''member'', ''short'', ''short_change''],
                   [cn_rank, cn_member, cn_short_position, cn_change]] of
             None \<Rightarrow> Inr (Inl MissingShortColumns)
           | Some (Inl e) \<Rightarrow> Inl e
           | Some (Inr df) \<Rightarrow> Inr (Inr df)))
     else Inr (Inl InvalidDataType))"

text \<open>
  \<open>update_time = now.replace(hour=16, minute=30, second=0, microsecond=0)\<close> and
  \<open>start_day = 1 if now < update_time else 0\<close>.
\<close>

definition update_time :: "datetime \<Rightarrow> datetime" where
  "update_time now = now\<lparr>hour := 16, minute := 30, second := 0, microsecond := 0\<rparr>"

definition start_day :: "datetime \<Rightarrow> nat" where
  "start_day now = (if dt_less now (update_time now) then 1 else 0)"

text \<open>
  \<open>get_holding_rank_data\<close> of \<open>dashboard_v6.py\<close>. The exchange comes from the definition
  of \<open>get_exchange_by_symbol\<close> in force there, and the walk runs over
  \<open>range(start_day, max_days)\<close>.
\<close>

definition get_holding_rank_data_v6 ::
  "rank_api \<Rightarrow> datetime \<Rightarrow> string \<Rightarrow> string \<Rightarrow> int list \<times> rank_result" where
  "get_holding_rank_data_v6 api now symbol data_type =
    (case get_exchange_by_symbol_v6 symbol of
       None \<Rightarrow> ([], (empty_frame, None, Some (UnsupportedExchange None)))
     | Some exchange \<Rightarrow>
        (let variety_code = product_code_of symbol in
         case walk (\<lambda>target_date_str.
                      try_day_v6 (api exchange target_date_str variety_code) symbol target_date_str)
                now [start_day now..<max_days] of
           (queried, outcome) \<Rightarrow>
             (queried,
              case outcome of
                Inl e \<Rightarrow> (empty_frame, None, Some (FetchFailed e))
              | Inr None \<Rightarrow> (empty_frame, None, Some (NoRankData symbol))
              | Inr (Some (data_date, rank_df)) \<Rightarrow>
                 if df_empty rank_df then (empty_frame, None, Some (NoRankData symbol))
                 else
                   (case standardize_v6 rank_df data_type of
                      Inl e \<Rightarrow> (empty_frame, None, Some (FetchFailed e))
                    | Inr (Inl msg) \<Rightarrow> (empty_frame, None, Some msg)
                    | Inr (Inr df) \<Rightarrow> (df_head 20 df, Some data_date, None)))))"

text \<open>
  The cutoff in the words of the specification: the time of day is at or after 16:30.
\<close>

definition past_cutoff :: "datetime \<Rightarrow> bool" where
  "past_cutoff now = (16 < hour now \<or> hour now = 16 \<and> 30 \<le> minute now)"

section \<open>Bar series and the operations of pandas on them\<close>

text \<open>
  The bar table of the indicator calculators: a \<open>DataFrame\<close> of float columns, an
  association list from label to column in column order, every column with one entry
  per row. The calculators change the table in place and return it; here each returns
  the changed table, and a table that an exception leaves half changed is not returned.
\<close>

type_synonym frame = "(string \<times> series) list"

definition and_then :: "py_error + 'a \<Rightarrow> ('a \<Rightarrow> py_error + 'b) \<Rightarrow> py_error + 'b" where
  "and_then r f = (case r of Inl e \<Rightarrow> Inl e | Inr x \<Rightarrow> f x)"

text \<open>\<open>df[label]\<close>, \<open>df[label] = column\<close> and \<open>df.drop(labels, axis=1, inplace=True)\<close>.\<close>

definition get_column :: "frame \<Rightarrow> string \<Rightarrow> py_error + series" where
  "get_column df label = (case map_of df label of None \<Rightarrow> Inl KeyError | Some s \<Rightarrow> Inr s)"

definition set_column :: "frame \<Rightarrow> string \<Rightarrow> series \<Rightarrow> frame" where
  "set_column df label s = AList.update label s df"

definition drop_columns :: "frame \<Rightarrow> string list \<Rightarrow> py_error + frame" where
  "drop_columns df labels =
    (if list_all (\<lambda>l. map_of df l \<noteq> None) labels
     then Inr (filter (\<lambda>c. fst c \<notin> set labels) df)
     else Inl KeyError)"

text \<open>
  \<open>rolling(window=w)\<close>: a negative window raises \<open>ValueError\<close>. The window of row \<open>i\<close>
  holds the rows \<open>i - w + 1\<close> to \<open>i\<close> that exist. With the default \<open>min_periods = w\<close> the
  result of a row is NaN unless its window holds \<open>w\<close> numbers; an infinity counts as
  missing, as pandas replaces it by NaN before aggregating.
\<close>

definition window_at :: "nat \<Rightarrow> series \<Rightarrow> nat \<Rightarrow> series" where
  "window_at w xs i = drop (i + 1 - w) (take (i + 1) xs)"

definition rolling :: "int \<Rightarrow> (nat \<Rightarrow> series \<Rightarrow> fl) \<Rightarrow> series \<Rightarrow> py_error + series" where
  "rolling w agg xs =
    (if w < 0 then Inl ValueError
     else Inr (map (\<lambda>i. agg (nat w) (window_at (nat w) xs i)) [0..<length xs]))"

definition mean_agg :: "nat \<Rightarrow> series \<Rightarrow> fl" where
  "mean_agg w win =
    (let obs = observations win in
     if w \<le> length obs \<and> 0 < length obs then Fin (sum_list obs / real (length obs)) else NaN)"

text \<open>The sample standard deviation (\<open>ddof = 1\<close>): NaN unless there are two numbers.\<close>

definition std_agg :: "nat \<Rightarrow> series \<Rightarrow> fl" where
  "std_agg w win =
    (let obs = observations win; n = length obs; m = sum_list obs / real n in
     if w \<le> n \<and> 1 < n
     then Fin (sqrt (sum_list (map (\<lambda>x. (x - m)\<^sup>2) obs) / real (n - 1)))
     else NaN)"

definition rolling_mean :: "int \<Rightarrow> series \<Rightarrow> py_error + series" where
  "rolling_mean w xs = rolling w mean_agg xs"

definition rolling_std :: "int \<Rightarrow> series \<Rightarrow> py_error + series" where
  "rolling_std w xs = rolling w std_agg xs"

text \<open>\<open>shift(1)\<close>, \<open>diff()\<close>, \<open>where(cond, 0)\<close> and the row maximum that skips NaN.\<close>

definition shift1 :: "series \<Rightarrow> series" where
  "shift1 xs = (case xs of [] \<Rightarrow> [] | x # rest \<Rightarrow> NaN # butlast xs)"

definition diff :: "series \<Rightarrow> series" where
  "diff xs = map2 fl_sub xs (shift1 xs)"

definition where_else_zero :: "(fl \<Rightarrow> bool) \<Rightarrow> series \<Rightarrow> series" where
  "where_else_zero cond xs = map (\<lambda>x. if cond x then x else Fin 0) xs"

definition row_max3 :: "series \<Rightarrow> series \<Rightarrow> series \<Rightarrow> series" where
  "row_max3 xs ys zs = map (\<lambda>(x, y, z). fl_max (fl_max x y) z) (zip xs (zip ys zs))"

text \<open>
  \<open>ewm(span=period, adjust=False).mean()\<close>: a span below 1 raises \<open>ValueError\<close>; the smoothing
  factor is \<open>2 / (period + 1)\<close>. The loop is that of pandas: \<open>weighted\<close> is the running mean,
  NaN until the first number, and \<open>old_wt\<close> the weight of the past, which decays over
  missing values.
\<close>

definition prep :: "fl \<Rightarrow> fl" where
  "prep x = (case x of Fin v \<Rightarrow> Fin v | _ \<Rightarrow> NaN)"

fun ewm_loop :: "real \<Rightarrow> fl \<Rightarrow> real \<Rightarrow> series \<Rightarrow> series" where
  "ewm_loop alpha weighted old_wt [] = []"
| "ewm_loop alpha weighted old_wt (cur # rest) =
    (case weighted of
       Fin w \<Rightarrow>
         (case cur of
            Fin c \<Rightarrow>
              (let old_wt' = old_wt * (1 - alpha);
                   w' = (if w \<noteq> c then (old_wt' * w + alpha * c) / (old_wt' + alpha) else w)
               in Fin w' # ewm_loop alpha (Fin w') 1 rest)
          | _ \<Rightarrow> Fin w # ewm_loop alpha (Fin w) (old_wt * (1 - alpha)) rest)
     | _ \<Rightarrow>
         (case cur of
            Fin c \<Rightarrow> Fin c # ewm_loop alpha (Fin c) old_wt rest
          | _ \<Rightarrow> NaN # ewm_loop alpha NaN old_wt rest))"

definition ewm_mean :: "int \<Rightarrow> series \<Rightarrow> py_error + series" where
  "ewm_mean period xs =
    (if period < 1 then Inl ValueError
     else Inr (case map prep xs of
                 [] \<Rightarrow> []
               | x # rest \<Rightarrow> x # ewm_loop (2 / (real_of_int period + 1)) x 1 rest))"

text \<open>\<open>str(i)\<close> of an integer, for the column names built by f-strings.\<close>

fun digits_of :: "nat \<Rightarrow> string" where
  "digits_of n = (if n < 10 then [digit n] else digits_of (n div 10) @ [digit n])"

declare digits_of.simps [simp del]

definition str_int :: "int \<Rightarrow> string" where
  "str_int i = (if i < 0 then CHR ''-'' # digits_of (nat (- i)) else digits_of (nat i))"

text \<open>\<open>name or fallback\<close>: the fallback when the name is \<open>None\<close> or the empty string.\<close>

definition name_or :: "string option \<Rightarrow> string \<Rightarrow> string" where
  "name_or name fallback =
    (case name of None \<Rightarrow> fallback | Some n \<Rightarrow> if n = [] then fallback else n)"

section \<open>Indicator calculators\<close>

text \<open>
  The methods of \<open>TechnicalCalculator\<close>. Each handler logs and raises again, so an
  exception of the body is the result.
\<close>

definition calculate_ma :: "frame \<Rightarrow> int \<Rightarrow> string \<Rightarrow> string option \<Rightarrow> py_error + frame" where
  "calculate_ma df window column name =
    (let result_col = name_or name (''ma'' @ str_int window) in
     and_then (get_column df column) (\<lambda>prices.
     and_then (rolling_mean window prices) (\<lambda>ma.
     Inr (set_column df result_col ma))))"

definition calculate_atr :: "frame \<Rightarrow> int \<Rightarrow> string \<Rightarrow> py_error + frame" where
  "calculate_atr df window name =
    and_then (get_column df ''high'') (\<lambda>high.
    and_then (get_column df ''low'') (\<lambda>low.
    let df1 = set_column df ''tr1'' (map2 fl_sub high low) in
    and_then (get_column df1 ''high'') (\<lambda>high1.
    and_then (get_column df1 ''close'') (\<lambda>close1.
    let df2 = set_column df1 ''tr2'' (map fl_abs (map2 fl_sub high1 (shift1 close1))) in
    and_then (get_column df2 ''low'') (\<lambda>low2.
    and_then (get_column df2 ''close'') (\<lambda>close2.
    let df3 = set_column df2 ''tr3'' (map fl_abs (map2 fl_sub low2 (shift1 close2))) in
    and_then (get_column df3 ''tr1'') (\<lambda>tr1.
    and_then (get_column df3 ''tr2'') (\<lambda>tr2.
    and_then (get_column df3 ''tr3'') (\<lambda>tr3.
    let df4 = set_column df3 ''tr'' (row_max3 tr1 tr2 tr3) in
    and_then (get_column df4 ''tr'') (\<lambda>tr.
    and_then (rolling_mean window tr) (\<lambda>atr.
    let df5 = set_column df4 name atr in
    drop_columns df5 [''tr1'', ''tr2'', ''tr3'', ''tr''])))))))))))"

definition calculate_macd ::
  "frame \<Rightarrow> int \<Rightarrow> int \<Rightarrow> int \<Rightarrow> string \<Rightarrow> string \<Rightarrow> py_error + frame" where
  "calculate_macd df fast_period slow_period signal_period column prefix =
    and_then (get_column df column) (\<lambda>prices.
    and_then (ewm_mean fast_period prices) (\<lambda>fast.
    let df1 = set_column df (prefix @ ''_fast'') fast in
    and_then (get_column df1 column) (\<lambda>prices1.
    and_then (ewm_mean slow_period prices1) (\<lambda>slow.
    let df2 = set_column df1 (prefix @ ''_slow'') slow in
    and_then (get_column df2 (prefix @ ''_fast'')) (\<lambda>fast2.
    and_then (get_column df2 (prefix @ ''_slow'')) (\<lambda>slow2.
    let df3 = set_column df2 (prefix @ ''_line'') (map2 fl_sub fast2 slow2) in
    and_then (get_column df3 (prefix @ ''_line'')) (\<lambda>line.
    and_then (ewm_mean signal_period line) (\<lambda>signal.
    let df4 = set_column df3 (prefix @ ''_signal'') signal in
    and_then (get_column df4 (prefix @ ''_line'')) (\<lambda>line4.
    and_then (get_column df4 (prefix @ ''_signal'')) (\<lambda>signal4.
    Inr (set_column df4 (prefix @ ''_hist'') (map2 fl_sub line4 signal4))))))))))))"

definition calculate_rsi :: "frame \<Rightarrow> int \<Rightarrow> string \<Rightarrow> string \<Rightarrow> py_error + frame" where
  "calculate_rsi df window column name =
    and_then (get_column df column) (\<lambda>prices.
    let delta = diff prices in
    and_then (rolling_mean window (where_else_zero (\<lambda>d. fl_less (Fin 0) d) delta)) (\<lambda>gain.
    and_then (rolling_mean window
                (map fl_neg (where_else_zero (\<lambda>d. fl_less d (Fin 0)) delta))) (\<lambda>loss.
    let rs = map2 fl_div gain loss in
    Inr (set_column df name
           (map (\<lambda>r. fl_sub (Fin 100) (fl_div (Fin 100) (fl_add (Fin 1) r))) rs)))))"

definition calculate_bollinger_bands ::
  "frame \<Rightarrow> int \<Rightarrow> real \<Rightarrow> string \<Rightarrow> string \<Rightarrow> py_error + frame" where
  "calculate_bollinger_bands df window num_std column prefix =
    and_then (get_column df column) (\<lambda>prices.
    and_then (rolling_mean window prices) (\<lambda>ma.
    let df1 = set_column df (prefix @ ''_mid'') ma in
    and_then (get_column df1 column) (\<lambda>prices1.
    and_then (rolling_std window prices1) (\<lambda>std.
    and_then (get_column df1 (prefix @ ''_mid'')) (\<lambda>mid.
    let df2 = set_column df1 (prefix @ ''_upper'')
                (map2 fl_add mid (map (\<lambda>s. fl_mul s (Fin num_std)) std)) in
    and_then (get_column df2 (prefix @ ''_mid'')) (\<lambda>mid2.
    Inr (set_column df2 (prefix @ ''_lower'')
           (map2 fl_sub mid2 (map (\<lambda>s. fl_mul s (Fin num_std)) std)))))))))"

definition calculate_volume_ma ::
  "frame \<Rightarrow> int \<Rightarrow> string \<Rightarrow> string option \<Rightarrow> py_error + frame" where
  "calculate_volume_ma df window column name =
    (let result_col = name_or name (''vol_ma'' @ str_int window) in
     and_then (get_column df column) (\<lambda>volumes.
     and_then (rolling_mean window volumes) (\<lambda>ma.
     Inr (set_column df result_col ma))))"

definition calculate_all :: "frame \<Rightarrow> py_error + frame" where
  "calculate_all df =
    and_then (calculate_ma df 20 ''close'' None) (\<lambda>df1.
    and_then (calculate_ma df1 50 ''close'' (Some ''ma50'')) (\<lambda>df2.
    and_then (calculate_ma df2 200 ''close'' (Some ''ma200'')) (\<lambda>df3.
    and_then (calculate_atr df3 14 ''atr'') (\<lambda>df4.
    and_then (calculate_macd df4 12 26 9 ''close'' ''macd'') (\<lambda>df5.
    and_then (calculate_rsi df5 14 ''close'' ''rsi'') (\<lambda>df6.
    and_then (calculate_bollinger_bands df6 20 2 ''close'' ''bb'') (\<lambda>df7.
    calculate_volume_ma df7 20 ''volume'' None)))))))"

text \<open>
  An empty bar series: the columns the calculators read are there and no column has a
  row. A value is defined when it is not NaN.
\<close>

definition empty_bars :: "frame \<Rightarrow> bool" where
  "empty_bars df =
    (list_all (\<lambda>c. snd c = []) df
     \<and> list_all (\<lambda>l. map_of df l \<noteq> None) [''high'', ''low'', ''close'', ''volume''])"


section \<open>Model registry\<close>

text \<open>
  The dataclass \<open>AIModel\<close>; its field \<open>id\<close> is \<open>model_id\<close> here. \<open>ModelManager\<close> keeps
  the models in a dictionary, which iterates in insertion order: an association list
  with distinct keys. Objects are modelled by their values: every operation receives a
  model object of its own, as the forms of the user interface build them, so no two
  entries share an object. Each operation ends with \<open>save_models\<close>, whose result, whether
  the file could be written, is the argument \<open>saved\<close>; a failed write returns \<open>False\<close>
  and leaves the registry as changed.
\<close>

record AIModel =
  model_id :: string
  name :: string
  provider :: string
  model_name :: string
  api_key :: string
  base_url :: "string option"
  description :: "string option"
  is_active :: bool

record ModelManager =
  models :: "(string \<times> AIModel) list"
  active_model :: "AIModel option"

text \<open>\<open>for model in self.models.values(): model.is_active = False\<close>.\<close>

definition deactivate_all :: "(string \<times> AIModel) list \<Rightarrow> (string \<times> AIModel) list" where
  "deactivate_all ms = map (\<lambda>(k, m). (k, m\<lparr>is_active := False\<rparr>)) ms"

definition add_model :: "bool \<Rightarrow> ModelManager \<Rightarrow> AIModel \<Rightarrow> bool \<times> ModelManager" where
  "add_model saved self model =
    (if map_of (models self) (model_id model) \<noteq> None then (False, self)
     else if models self = [] then
       (let model' = model\<lparr>is_active := True\<rparr> in
        (saved, \<lparr>models = AList.update (model_id model') model' (models self),
                 active_model = Some model'\<rparr>))
     else (saved, self\<lparr>models := AList.update (model_id model) model (models self)\<rparr>))"

definition update_model ::
  "bool \<Rightarrow> ModelManager \<Rightarrow> string \<Rightarrow> AIModel \<Rightarrow> bool \<times> ModelManager" where
  "update_model saved self mid updated_model =
    (if map_of (models self) mid = None then (False, self)
     else
       (let updated = updated_model\<lparr>model_id := mid\<rparr> in
        if is_active updated then
          (let updated' = updated\<lparr>is_active := True\<rparr> in
           (saved, \<lparr>models = AList.update mid updated' (deactivate_all (models self)),
                    active_model = Some updated'\<rparr>))
        else (saved, self\<lparr>models := AList.update mid updated (models self)\<rparr>)))"

definition delete_model :: "bool \<Rightarrow> ModelManager \<Rightarrow> string \<Rightarrow> bool \<times> ModelManager" where
  "delete_model saved self mid =
    (case map_of (models self) mid of
       None \<Rightarrow> (False, self)
     | Some m \<Rightarrow>
        (let self' =
           (if is_active m then
              (if 1 < length (models self) then
                 (case models self of
                    [] \<Rightarrow> self\<lparr>active_model := None\<rparr>
                  | (first_model_id, first) # others \<Rightarrow>
                     if first_model_id \<noteq> mid then
                       \<lparr>models = (first_model_id, first\<lparr>is_active := True\<rparr>) # others,
                        active_model = Some (first\<lparr>is_active := True\<rparr>)\<rparr>
                     else self\<lparr>active_model := None\<rparr>)
               else self\<lparr>active_model := None\<rparr>)
            else self)
         in (saved, self'\<lparr>models := AList.delete mid (models self')\<rparr>)))"

definition set_active_model :: "bool \<Rightarrow> ModelManager \<Rightarrow> string \<Rightarrow> bool \<times> ModelManager" where
  "set_active_model saved self mid =
    (if map_of (models self) mid = None then (False, self)
     else
       (let cleared = deactivate_all (models self) in
        case map_of cleared mid of
          None \<Rightarrow> (False, self\<lparr>models := cleared\<rparr>)
        | Some selected_model \<Rightarrow>
           (let selected' = selected_model\<lparr>is_active := True\<rparr> in
            (saved, \<lparr>models = AList.update mid selected' cleared,
                     active_model = Some selected'\<rparr>))))"

text \<open>The number of stored models whose \<open>is_active\<close> is true.\<close>

definition active_count :: "ModelManager \<Rightarrow> nat" where
  "active_count self = length (filter (\<lambda>(k, m). is_active m) (models self))"

section \<open>Concrete inputs\<close>

text \<open>A T-quote table of two strikes: call volumes 15 and 25, put volumes 30 and 30.\<close>

definition example_option_frame :: option_frame where
  "example_option_frame =
    [(cn_call_buy_volume, Numbers [Fin 10, Fin 20]), (cn_call_sell_volume, Numbers [Fin 5, Fin 5]),
     (cn_put_buy_volume, Numbers [Fin 10, Fin 10]), (cn_put_sell_volume, Numbers [Fin 20, Fin 20])]"

text \<open>The float that the literal \<open>1e-200\<close> denotes: a tiny positive ATR or multiplier.\<close>

definition float_1e_200 :: real where
  "float_1e_200 = 1723641332219371 / 2 ^ 715"

text \<open>An option endpoint that is down: every call raises.\<close>

definition failing_option_api :: option_api where
  "failing_option_api commodity_name symbol retry_count = OptionRaises"

text \<open>
  Two model configurations as a caller of \<open>add_model\<close> can build them: the second one
  asks to be the active model.
\<close>

definition example_model :: "string \<Rightarrow> bool \<Rightarrow> AIModel" where
  "example_model ident active =
    \<lparr>model_id = ident, name = ident, provider = ''siliconflow'', model_name = ''m'',
     api_key = ''k'', base_url = None, description = None, is_active = active\<rparr>"

definition empty_registry :: ModelManager where
  "empty_registry = \<lparr>models = [], active_model = None\<rparr>"

text \<open>
  A Wednesday (8 January 2025, day 739259) at 10:00 and at 17:00, a ranking table of five
  rows with the columns of the exchanges' endpoints, and an endpoint that answers every
  call with that table for the contract \<open>IF2506\<close>.
\<close>

definition example_morning :: datetime where
  "example_morning = \<lparr>ordinal = 739259, hour = 10, minute = 0, second = 0, microsecond = 0\<rparr>"

definition example_evening :: datetime where
  "example_evening = \<lparr>ordinal = 739259, hour = 17, minute = 0, second = 0, microsecond = 0\<rparr>"

definition example_table :: dataframe where
  "example_table =
    \<lparr>nrows = 5,
     cols = [(''rank'', [''1'', ''2'', ''3'', ''4'', ''5'']),
             (''long_party_name'', [''a'', ''b'', ''c'', ''d'', ''e'']),
             (''long_open_interest'', [''50'', ''40'', ''30'', ''20'', ''10'']),
             (''long_open_interest_chg'', [''1'', ''2'', ''3'', ''4'', ''5''])]\<rparr>"

definition example_api :: rank_api where
  "example_api exchange target_date_str variety_code = Returns (Some [(''IF2506'', example_table)])"

definition example_ranking :: dataframe where
  "example_ranking =
    \<lparr>nrows = 5,
     cols = [(cn_rank, [''1'', ''2'', ''3'', ''4'', ''5'']),
             (cn_member, [''a'', ''b'', ''c'', ''d'', ''e'']),
             (cn_value, [''50'', ''40'', ''30'', ''20'', ''10'']),
             (cn_change, [''1'', ''2'', ''3'', ''4'', ''5''])]\<rparr>"

text \<open>A bar table with the five OHLCV columns and no row.\<close>

definition empty_ohlcv :: frame where
  "empty_ohlcv = [(''open'', []), (''high'', []), (''low'', []), (''close'', []), (''volume'', [])]"


section \<open>Exchange routing: results\<close>

lemma empty_code_no_key: "map_of FUTURE_EXCHANGE_MAP [] = None"
  by (simp add: FUTURE_EXCHANGE_MAP_def)

text \<open>Every key of the table is one or two letters.\<close>

lemma keys_are_letters:
  "list_all (\<lambda>entry. (length (fst entry) = 1 \<or> length (fst entry) = 2)
      \<and> list_all is_letter (fst entry)) FUTURE_EXCHANGE_MAP"
  by (simp add: FUTURE_EXCHANGE_MAP_def is_letter_def ascii_lower_def ascii_upper_def)

lemma key_shape:
  assumes "map_of FUTURE_EXCHANGE_MAP k \<noteq> None"
  shows "(length k = 1 \<or> length k = 2) \<and> list_all is_letter k"
proof -
  from assms obtain e where "map_of FUTURE_EXCHANGE_MAP k = Some e" by auto
  then have "(k, e) \<in> set FUTURE_EXCHANGE_MAP" by (rule map_of_SomeD)
  with keys_are_letters show ?thesis by (auto simp: list_all_iff)
qed

lemma no_key_long: "map_of FUTURE_EXCHANGE_MAP (a # b # c # r) = None"
  using key_shape [of "a # b # c # r"] by (cases "map_of FUTURE_EXCHANGE_MAP (a # b # c # r)") auto

lemma no_key_first: "\<not> is_letter a \<Longrightarrow> map_of FUTURE_EXCHANGE_MAP (a # r) = None"
  using key_shape [of "a # r"] by (cases "map_of FUTURE_EXCHANGE_MAP (a # r)") auto

lemma no_key_second: "\<not> is_letter b \<Longrightarrow> map_of FUTURE_EXCHANGE_MAP (a # b # r) = None"
  using key_shape [of "a # b # r"] by (cases "map_of FUTURE_EXCHANGE_MAP (a # b # r)") auto

lemma letter_not_digit: "is_letter c \<Longrightarrow> \<not> isdigit c"
  by (auto simp: is_letter_def isdigit_def ascii_lower_def ascii_upper_def)

lemma upper_char_letter: "is_letter (upper_char c) = is_letter c"
proof (cases "map_of (zip ascii_lower ascii_upper) c")
  case None
  then show ?thesis by (simp add: upper_char_def)
next
  case (Some u)
  then have "(c, u) \<in> set (zip ascii_lower ascii_upper)" by (rule map_of_SomeD)
  then have "c \<in> set ascii_lower" and "u \<in> set ascii_upper"
    by (auto dest: set_zip_leftD set_zip_rightD)
  with Some show ?thesis by (simp add: upper_char_def is_letter_def)
qed

lemma lower_char_letter: "is_letter (lower_char c) = is_letter c"
proof (cases "map_of (zip ascii_upper ascii_lower) c")
  case None
  then show ?thesis by (simp add: lower_char_def)
next
  case (Some l)
  then have "(c, l) \<in> set (zip ascii_upper ascii_lower)" by (rule map_of_SomeD)
  then have "c \<in> set ascii_upper" and "l \<in> set ascii_lower"
    by (auto dest: set_zip_leftD set_zip_rightD)
  with Some show ?thesis by (simp add: lower_char_def is_letter_def)
qed

lemma first_match_Cons:
  "first_match (k # ks) =
    (if map_of FUTURE_EXCHANGE_MAP k \<noteq> None then map_of FUTURE_EXCHANGE_MAP k
     else first_match ks)"
  by (simp add: first_match_def)

lemma first_match_Nil: "first_match [] = None"
  by (simp add: first_match_def)

text \<open>The letters before the first digit start with the letter prefix.\<close>

lemma letter_prefix_of_code:
  "takeWhile is_letter (takeWhile (\<lambda>c. \<not> isdigit c) symbol) = letter_prefix symbol"
  unfolding letter_prefix_def by (induction symbol) (auto dest: letter_not_digit)

lemma upper_case_route:
  assumes "upper (takeWhile is_letter code) = takeWhile is_letter code"
  shows "(if map_of FUTURE_EXCHANGE_MAP (upper code) \<noteq> None
          then map_of FUTURE_EXCHANGE_MAP (upper code)
          else if 2 \<le> length (upper code)
                  \<and> map_of FUTURE_EXCHANGE_MAP (take 2 (upper code)) \<noteq> None
          then map_of FUTURE_EXCHANGE_MAP (take 2 (upper code))
          else if map_of FUTURE_EXCHANGE_MAP (take 1 (upper code)) \<noteq> None
          then map_of FUTURE_EXCHANGE_MAP (take 1 (upper code))
          else None)
       = first_match [takeWhile is_letter code, take 2 (takeWhile is_letter code),
                      take 1 (takeWhile is_letter code)]"
proof (cases code)
  case Nil
  then show ?thesis
    by (simp add: upper_def first_match_Cons first_match_Nil empty_code_no_key)
next
  case (Cons c cs)
  note outer = Cons
  show ?thesis
  proof (cases "is_letter c")
    case False
    with outer show ?thesis
      by (simp add: upper_def first_match_Cons first_match_Nil empty_code_no_key
          no_key_first upper_char_letter)
  next
    case c_letter: True
    show ?thesis
    proof (cases cs)
      case Nil
      with outer c_letter assms show ?thesis
        by (simp add: upper_def first_match_Cons first_match_Nil)
    next
      case (Cons d ds)
      note inner = Cons
      show ?thesis
      proof (cases "is_letter d")
        case False
        with outer inner c_letter assms show ?thesis
          by (simp add: upper_def first_match_Cons first_match_Nil no_key_second
              upper_char_letter)
      next
        case d_letter: True
        show ?thesis
        proof (cases ds)
          case Nil
          with outer inner c_letter d_letter assms show ?thesis
            by (simp add: upper_def first_match_Cons first_match_Nil)
        next
          case (Cons x xs)
          with outer inner c_letter d_letter assms show ?thesis
            by (simp add: upper_def first_match_Cons first_match_Nil no_key_long)
        qed
      qed
    qed
  qed
qed

lemma lower_case_route:
  assumes "lower (letter_prefix symbol) = letter_prefix symbol"
  shows "try_lengths symbol [2, 1] =
    (case route_spec symbol of None \<Rightarrow> Some SHFE | Some e \<Rightarrow> Some e)"
proof (cases symbol)
  case Nil
  then show ?thesis
    by (simp add: route_spec_def letter_prefix_def first_match_Cons first_match_Nil
        empty_code_no_key)
next
  case (Cons c cs)
  note outer = Cons
  show ?thesis
  proof (cases "is_letter c")
    case False
    with outer show ?thesis
      by (simp add: route_spec_def letter_prefix_def lower_def first_match_Cons
          first_match_Nil empty_code_no_key no_key_first lower_char_letter)
  next
    case c_letter: True
    show ?thesis
    proof (cases cs)
      case Nil
      with outer c_letter assms show ?thesis
        by (auto simp add: route_spec_def letter_prefix_def lower_def first_match_Cons
            first_match_Nil)
    next
      case (Cons d ds)
      note inner = Cons
      show ?thesis
      proof (cases "is_letter d")
        case False
        with outer inner c_letter assms show ?thesis
          by (auto simp add: route_spec_def letter_prefix_def lower_def first_match_Cons
              first_match_Nil no_key_second lower_char_letter)
      next
        case d_letter: True
        show ?thesis
        proof (cases "takeWhile is_letter ds")
          case Nil
          with outer inner c_letter d_letter assms show ?thesis
            by (auto simp add: route_spec_def letter_prefix_def lower_def first_match_Cons
                first_match_Nil)
        next
          case (Cons x xs)
          with outer inner c_letter d_letter assms show ?thesis
            by (auto simp add: route_spec_def letter_prefix_def lower_def first_match_Cons
                first_match_Nil no_key_long)
        qed
      qed
    qed
  qed
qed

lemma try_lengths_Some: "try_lengths symbol lens \<noteq> None"
  by (induction lens) auto

text \<open>
  Outside the symbols of the result below the two implementations leave the rule, each
  by its conversion of case. The table has the Shanghai and Dalian products in lower
  case and the Zhengzhou and CFFEX products in upper case. \<open>data_utils.py\<close> looks up the
  upper-cased code: it recognises neither \<open>rb2505\<close> nor \<open>m2505\<close>, the two examples of its
  own docstring, although \<open>rb\<close> and \<open>m\<close> are keys. The dashboard looks up lower-cased
  prefixes: it sends \<open>IF2506\<close> to Dalian through the key \<open>i\<close> and \<open>TA505\<close> to its default,
  although \<open>IF\<close> and \<open>TA\<close> are keys.
\<close>

lemma case_conversion_misroutes:
  "route_spec ''rb2505'' = Some SHFE \<and> get_exchange_by_symbol ''rb2505'' = None
   \<and> route_spec ''m2505'' = Some DCE \<and> get_exchange_by_symbol ''m2505'' = None
   \<and> route_spec ''IF2506'' = Some CFFEX \<and> get_exchange_by_symbol_v6 ''IF2506'' = Some DCE
   \<and> route_spec ''TA505'' = Some CZCE \<and> get_exchange_by_symbol_v6 ''TA505'' = Some SHFE"
  by (simp add: route_spec_def letter_prefix_def is_letter_def first_match_def
      get_exchange_by_symbol_def get_exchange_by_symbol_v6_def product_code_of_def upper_def
      lower_def upper_char_def lower_char_def ascii_lower_def ascii_upper_def isdigit_def
      FUTURE_EXCHANGE_MAP_def)

text \<open>
  C5 (as amended). Routing is a function of the symbol alone. For a symbol of ASCII
  characters whose letter prefix is spelled in upper case, \<open>get_exchange_by_symbol\<close> of
  \<open>data_utils.py\<close> resolves the letter prefix by trying the full prefix, then its first
  two letters, then its first letter against the static table, the first match deciding,
  and returns \<open>None\<close> when none matches. For a symbol of ASCII characters whose letter
  prefix is spelled in lower case, the definition the dashboard uses resolves the letter
  prefix in the same priority order, but answers SHFE when none matches; it returns
  \<open>None\<close> for no symbol at all.
\<close>

theorem exchange_routing_priority:
  assumes "is_ascii symbol"
  shows "(upper (letter_prefix symbol) = letter_prefix symbol
            \<longrightarrow> get_exchange_by_symbol symbol = route_spec symbol)
       \<and> (lower (letter_prefix symbol) = letter_prefix symbol
            \<longrightarrow> get_exchange_by_symbol_v6 symbol =
                  (case route_spec symbol of None \<Rightarrow> Some SHFE | Some e \<Rightarrow> Some e))
       \<and> get_exchange_by_symbol_v6 symbol \<noteq> None"
proof (intro conjI impI)
  assume "upper (letter_prefix symbol) = letter_prefix symbol"
  then have "upper (takeWhile is_letter (takeWhile (\<lambda>c. \<not> isdigit c) symbol))
      = takeWhile is_letter (takeWhile (\<lambda>c. \<not> isdigit c) symbol)"
    by (simp only: letter_prefix_of_code)
  from upper_case_route [OF this] show "get_exchange_by_symbol symbol = route_spec symbol"
    by (simp only: get_exchange_by_symbol_def route_spec_def product_code_of_def Let_def
        letter_prefix_of_code)
next
  assume "lower (letter_prefix symbol) = letter_prefix symbol"
  then show "get_exchange_by_symbol_v6 symbol =
      (case route_spec symbol of None \<Rightarrow> Some SHFE | Some e \<Rightarrow> Some e)"
    unfolding get_exchange_by_symbol_v6_def by (rule lower_case_route)
next
  show "get_exchange_by_symbol_v6 symbol \<noteq> None"
    unfolding get_exchange_by_symbol_v6_def by (rule try_lengths_Some)
qed

lemma example_prefixes:
  "is_ascii ''IF2506'' \<and> letter_prefix ''IF2506'' = ''IF'' \<and> upper ''IF'' = ''IF''
   \<and> route_spec ''IF2506'' = Some CFFEX
   \<and> is_ascii ''rb2505'' \<and> letter_prefix ''rb2505'' = ''rb'' \<and> lower ''rb'' = ''rb''
   \<and> route_spec ''rb2505'' = Some SHFE"
  by (simp add: is_ascii_def route_spec_def letter_prefix_def is_letter_def first_match_def
      upper_def lower_def upper_char_def lower_char_def ascii_lower_def ascii_upper_def
      FUTURE_EXCHANGE_MAP_def)

theorem exchange_routing_priority_witness:
  "get_exchange_by_symbol ''IF2506'' = Some CFFEX
   \<and> get_exchange_by_symbol_v6 ''rb2505'' = Some SHFE"
  using exchange_routing_priority [of "''IF2506''"] exchange_routing_priority [of "''rb2505''"]
  by (simp add: example_prefixes)

text \<open>
  C5 as stated fails for the dashboard's definition: no prefix of \<open>xyz\<close>, in either case,
  is a key of the table, \<open>data_utils.py\<close> answers \<open>None\<close>, and the dashboard answers SHFE.
\<close>

theorem exchange_routing_v6_counterexample:
  "route_spec ''xyz'' = None
   \<and> first_match [''xyz'', ''xy'', ''x'', ''XYZ'', ''XY'', ''X''] = None
   \<and> get_exchange_by_symbol ''xyz'' = None
   \<and> get_exchange_by_symbol_v6 ''xyz'' = Some SHFE"
  by (simp add: route_spec_def letter_prefix_def is_letter_def first_match_def
      get_exchange_by_symbol_def get_exchange_by_symbol_v6_def product_code_of_def upper_def
      lower_def upper_char_def lower_char_def ascii_lower_def ascii_upper_def isdigit_def
      FUTURE_EXCHANGE_MAP_def)

section \<open>Position sizing: results\<close>

text \<open>Powers of two, and the exponent of a number.\<close>

lemma pow2_powr: "pow2 k = 2 powr (of_int k)"
proof (cases "0 \<le> k")
  case True
  then have "(2::real) powr (of_int k) = 2 powr (real (nat k))" by simp
  also have "\<dots> = 2 ^ nat k" by (rule powr_realpow) simp
  finally show ?thesis using True by (simp add: pow2_def)
next
  case False
  then have "(2::real) powr (of_int k) = 2 powr (- real (nat (- k)))" by simp
  also have "\<dots> = 1 / 2 powr (real (nat (- k)))" by (simp add: powr_minus_divide)
  also have "\<dots> = 1 / 2 ^ nat (- k)" by (simp add: powr_realpow)
  finally show ?thesis using False by (simp add: pow2_def)
qed

lemma pow2_pos: "0 < pow2 k"
  by (simp add: pow2_powr)

lemma pow2_mono: "a \<le> b \<Longrightarrow> pow2 a \<le> pow2 b"
  by (simp add: pow2_powr)

lemma pow2_diff: "pow2 a / pow2 b = pow2 (a - b)"
  by (simp add: pow2_powr powr_diff)

lemma exponent_normal:
  assumes "x \<noteq> 0" and "pow2 e \<le> \<bar>x\<bar>" and "\<bar>x\<bar> < pow2 (e + 1)" and "- 1022 \<le> e"
  shows "binary_exponent x = e"
proof -
  from assms(1) have pos: "0 < \<bar>x\<bar>" by simp
  have "\<lfloor>log 2 \<bar>x\<bar>\<rfloor> = e"
    using assms(2,3) pos by (simp add: floor_log_eq_powr_iff pow2_powr)
  with assms(4) show ?thesis by (simp add: binary_exponent_def)
qed

lemma exponent_subnormal:
  assumes "x \<noteq> 0" and "\<bar>x\<bar> < pow2 (- 1022)"
  shows "binary_exponent x = - 1022"
proof -
  from assms(1) have pos: "0 < \<bar>x\<bar>" by simp
  have "log 2 \<bar>x\<bar> < of_int (- 1022)"
    using assms(2) pos by (simp add: log_less_iff pow2_powr)
  then have "\<lfloor>log 2 \<bar>x\<bar>\<rfloor> < - 1022" by linarith
  then show ?thesis by (simp add: binary_exponent_def)
qed

lemma exponent_lower:
  assumes "x \<noteq> 0" and "pow2 k \<le> \<bar>x\<bar>" and "- 1022 \<le> k"
  shows "k \<le> binary_exponent x \<and> pow2 (binary_exponent x) \<le> \<bar>x\<bar>"
proof -
  from assms(1) have pos: "0 < \<bar>x\<bar>" by simp
  have "of_int k \<le> log 2 \<bar>x\<bar>"
    using assms(2) pos by (simp add: le_log_iff pow2_powr)
  then have k: "k \<le> \<lfloor>log 2 \<bar>x\<bar>\<rfloor>" by linarith
  with assms(3) have e: "binary_exponent x = \<lfloor>log 2 \<bar>x\<bar>\<rfloor>" by (simp add: binary_exponent_def)
  have "of_int \<lfloor>log 2 \<bar>x\<bar>\<rfloor> \<le> log 2 \<bar>x\<bar>" by simp
  then have "2 powr (of_int \<lfloor>log 2 \<bar>x\<bar>\<rfloor>) \<le> \<bar>x\<bar>"
    using pos le_log_iff [of 2 "\<bar>x\<bar>" "of_int \<lfloor>log 2 \<bar>x\<bar>\<rfloor>"] by linarith
  then have "pow2 \<lfloor>log 2 \<bar>x\<bar>\<rfloor> \<le> \<bar>x\<bar>"
    by (simp only: pow2_powr)
  with k e show ?thesis by simp
qed

lemma round_half_even_floor: "\<lfloor>y\<rfloor> \<le> round_half_even y"
  by (simp add: round_half_even_def Let_def)

lemma round_half_even_lower:
  assumes "of_int n \<le> y"
  shows "n \<le> round_half_even y"
proof -
  from assms have "n \<le> \<lfloor>y\<rfloor>" by (simp add: le_floor_iff)
  with round_half_even_floor [of y] show ?thesis by linarith
qed

lemma to_double_zero: "to_double 0 = Fin 0"
  by (simp add: to_double_def)

lemma to_double_nonneg:
  assumes "0 \<le> x"
  shows "to_double x = PInf \<or> (\<exists>y. to_double x = Fin y \<and> 0 \<le> y)"
proof (cases "x = 0")
  case True
  then show ?thesis by (simp add: to_double_zero)
next
  case False
  define spacing where "spacing = pow2 (binary_exponent x - 52)"
  define y where "y = of_int (round_half_even (x / spacing)) * spacing"
  have sp: "0 < spacing" unfolding spacing_def by (rule pow2_pos)
  with assms have "of_int 0 \<le> x / spacing" by simp
  then have "0 \<le> round_half_even (x / spacing)" by (rule round_half_even_lower)
  with sp have y0: "0 \<le> y" unfolding y_def by simp
  have td: "to_double x = (if pow2 1024 \<le> \<bar>y\<bar> then (if 0 < y then PInf else NInf) else Fin y)"
    using False by (simp add: to_double_def Let_def spacing_def y_def)
  show ?thesis
  proof (cases "pow2 1024 \<le> \<bar>y\<bar>")
    case True
    with y0 pow2_pos [of 1024] have "0 < y" by linarith
    with True td show ?thesis by simp
  next
    case False
    with td y0 show ?thesis by simp
  qed
qed

lemma hundredth_bounds: "pow2 (- 7) \<le> hundredth \<and> hundredth < pow2 (- 6) \<and> 0 < hundredth"
  by (simp add: pow2_def hundredth_def)

lemma to_double_at_least:
  assumes "hundredth \<le> x"
  shows "to_double x = PInf \<or> (\<exists>y. to_double x = Fin y \<and> hundredth \<le> y)"
proof -
  from assms hundredth_bounds have xpos: "0 < x" and x7: "pow2 (- 7) \<le> \<bar>x\<bar>" by linarith+
  then have x0: "x \<noteq> 0" by simp
  define e where "e = binary_exponent x"
  define spacing where "spacing = pow2 (e - 52)"
  define y where "y = of_int (round_half_even (x / spacing)) * spacing"
  have sp: "0 < spacing" unfolding spacing_def by (rule pow2_pos)
  from exponent_lower [OF x0 x7] have e7: "- 7 \<le> e" and ex: "pow2 e \<le> \<bar>x\<bar>"
    unfolding e_def by simp_all
  have hy: "hundredth \<le> y"
  proof (cases "e = - 7")
    case True
    then have spv: "spacing = 1 / 2 ^ 59" by (simp add: spacing_def pow2_def)
    have "of_int 5764607523034235 \<le> x / spacing"
      using assms by (simp add: spv hundredth_def)
    then have "5764607523034235 \<le> round_half_even (x / spacing)"
      by (rule round_half_even_lower)
    then have "of_int 5764607523034235 \<le> (of_int (round_half_even (x / spacing)) :: real)"
      by (simp only: of_int_le_iff)
    then show ?thesis
      by (simp add: y_def spv hundredth_def)
  next
    case False
    with e7 have e6: "- 6 \<le> e" by simp
    have "pow2 e / spacing = pow2 52"
      unfolding spacing_def by (simp add: pow2_diff)
    then have "pow2 e = pow2 52 * spacing" using sp by (simp add: field_simps)
    with ex xpos have "pow2 52 * spacing \<le> x" by simp
    with sp have "pow2 52 \<le> x / spacing" by (simp add: pos_le_divide_eq)
    moreover have "pow2 52 = of_int (2 ^ 52)" by (simp add: pow2_def)
    ultimately have "of_int (2 ^ 52) \<le> x / spacing" by simp
    then have "2 ^ 52 \<le> round_half_even (x / spacing)" by (rule round_half_even_lower)
    then have "of_int (2 ^ 52) \<le> (of_int (round_half_even (x / spacing)) :: real)"
      by (simp only: of_int_le_iff)
    with sp have "of_int (2 ^ 52) * spacing \<le> y"
      unfolding y_def by (simp only: mult_le_cancel_right_pos)
    moreover have "of_int (2 ^ 52) * spacing = pow2 e"
      using \<open>pow2 e = pow2 52 * spacing\<close> \<open>pow2 52 = of_int (2 ^ 52)\<close> by simp
    moreover have "pow2 (- 6) \<le> pow2 e" using e6 by (rule pow2_mono)
    ultimately show ?thesis using hundredth_bounds by linarith
  qed
  have td: "to_double x = (if pow2 1024 \<le> \<bar>y\<bar> then (if 0 < y then PInf else NInf) else Fin y)"
    using x0 by (simp add: to_double_def Let_def spacing_def y_def e_def)
  from hy hundredth_bounds have "0 < y" by linarith
  with td hy show ?thesis by simp
qed

text \<open>The rounding of one number, from its exponent and the rounded quotient.\<close>

lemma to_double_value:
  assumes "x \<noteq> 0" and "binary_exponent x = e" and "pow2 (e - 52) = spacing"
    and "round_half_even (x / spacing) = n" and "\<bar>of_int n * spacing\<bar> < pow2 1024"
  shows "to_double x = Fin (of_int n * spacing)"
  using assms by (simp add: to_double_def Let_def)

lemma to_double_hundredth: "to_double (1 / 100) = Fin hundredth"
proof -
  have "to_double (1 / 100) = Fin (of_int 5764607523034235 * (1 / 2 ^ 59))"
  proof (rule to_double_value [where e = "- 7"])
    show "binary_exponent (1 / 100) = - 7"
      by (rule exponent_normal) (simp_all add: pow2_def)
    show "pow2 (- 7 - 52) = 1 / 2 ^ 59" by (simp add: pow2_def)
    show "round_half_even (1 / 100 / (1 / 2 ^ 59)) = 5764607523034235"
      by (simp add: round_half_even_def Let_def)
    show "\<bar>of_int 5764607523034235 * (1 / 2 ^ 59)\<bar> < pow2 1024"
      by (simp add: pow2_def)
  qed simp
  then show ?thesis by (simp add: hundredth_def)
qed

text \<open>The floats of the examples below.\<close>

lemma to_double_10000: "to_double 10000 = Fin 10000"
proof -
  have "to_double 10000 = Fin (of_int 5497558138880000 * (1 / 2 ^ 39))"
  proof (rule to_double_value [where e = "13"])
    show "binary_exponent 10000 = 13"
      by (rule exponent_normal) (simp_all add: pow2_def)
    show "pow2 (13 - 52) = 1 / 2 ^ 39" by (simp add: pow2_def)
    show "round_half_even (10000 / (1 / 2 ^ 39)) = 5497558138880000"
      by (simp add: round_half_even_def Let_def)
    show "\<bar>of_int 5497558138880000 * (1 / 2 ^ 39)\<bar> < pow2 1024"
      by (simp add: pow2_def)
  qed simp
  then show ?thesis by simp
qed

lemma to_double_budget: "to_double (1000 * hundredth) = Fin 10"
proof -
  have "to_double (1000 * hundredth) = Fin (of_int 5629499534213120 * (1 / 2 ^ 49))"
  proof (rule to_double_value [where e = "3"])
    show "binary_exponent (1000 * hundredth) = 3"
      by (rule exponent_normal) (simp_all add: pow2_def hundredth_def)
    show "pow2 (3 - 52) = 1 / 2 ^ 49" by (simp add: pow2_def)
    show "round_half_even (1000 * hundredth / (1 / 2 ^ 49)) = 5629499534213120"
      by (simp add: round_half_even_def Let_def hundredth_def)
    show "\<bar>of_int 5629499534213120 * (1 / 2 ^ 49)\<bar> < pow2 1024"
      by (simp add: pow2_def)
  qed (simp add: hundredth_def)
  then show ?thesis by (simp add: hundredth_def)
qed

lemma to_double_thousandth: "to_double (1 / 1000) = Fin (1152921504606847 / 2 ^ 60)"
proof -
  have "to_double (1 / 1000) = Fin (of_int 4611686018427388 * (1 / 2 ^ 62))"
  proof (rule to_double_value [where e = "- 10"])
    show "binary_exponent (1 / 1000) = - 10"
      by (rule exponent_normal) (simp_all add: pow2_def)
    show "pow2 (- 10 - 52) = 1 / 2 ^ 62" by (simp add: pow2_def)
    show "round_half_even (1 / 1000 / (1 / 2 ^ 62)) = 4611686018427388"
      by (simp add: round_half_even_def Let_def)
    show "\<bar>of_int 4611686018427388 * (1 / 2 ^ 62)\<bar> < pow2 1024"
      by (simp add: pow2_def)
  qed simp
  then show ?thesis by simp
qed

lemma to_double_tiny_product: "to_double (float_1e_200 * float_1e_200) = Fin 0"
proof -
  have "to_double (float_1e_200 * float_1e_200) = Fin (of_int 0 * (1 / 2 ^ 1074))"
  proof (rule to_double_value [where e = "- 1022"])
    show "binary_exponent (float_1e_200 * float_1e_200) = - 1022"
      by (rule exponent_subnormal) (simp_all add: pow2_def float_1e_200_def)
    show "pow2 (- 1022 - 52) = 1 / 2 ^ 1074" by (simp add: pow2_def)
    show "round_half_even (float_1e_200 * float_1e_200 / (1 / 2 ^ 1074)) = 0"
      by (simp add: round_half_even_def Let_def float_1e_200_def)
    show "\<bar>of_int 0 * (1 / 2 ^ 1074)\<bar> < pow2 1024"
      by (simp add: pow2_def)
  qed (simp add: float_1e_200_def)
  then show ?thesis by (simp add: float_1e_200_def)
qed

lemma to_double_two: "to_double 2 = Fin 2"
proof -
  have "to_double 2 = Fin (of_int 4503599627370496 * (1 / 2 ^ 51))"
  proof (rule to_double_value [where e = "1"])
    show "binary_exponent 2 = 1"
      by (rule exponent_normal) (simp_all add: pow2_def)
    show "pow2 (1 - 52) = 1 / 2 ^ 51" by (simp add: pow2_def)
    show "round_half_even (2 / (1 / 2 ^ 51)) = 4503599627370496"
      by (simp add: round_half_even_def Let_def)
    show "\<bar>of_int 4503599627370496 * (1 / 2 ^ 51)\<bar> < pow2 1024"
      by (simp add: pow2_def)
  qed simp
  then show ?thesis by simp
qed

lemma to_double_three_hundredths:
  "to_double (3 * hundredth) = Fin (1080863910568919 / 2 ^ 55)"
proof -
  have "to_double (3 * hundredth) = Fin (of_int 8646911284551352 * (1 / 2 ^ 58))"
  proof (rule to_double_value [where e = "- 6"])
    show "binary_exponent (3 * hundredth) = - 6"
      by (rule exponent_normal) (simp_all add: pow2_def hundredth_def)
    show "pow2 (- 6 - 52) = 1 / 2 ^ 58" by (simp add: pow2_def)
    show "round_half_even (3 * hundredth / (1 / 2 ^ 58)) = 8646911284551352"
      by (simp add: round_half_even_def Let_def hundredth_def)
    show "\<bar>of_int 8646911284551352 * (1 / 2 ^ 58)\<bar> < pow2 1024"
      by (simp add: pow2_def)
  qed (simp add: hundredth_def)
  then show ?thesis by (simp add: hundredth_def)
qed

lemma to_double_half_budget:
  "to_double (1080863910568919 / 72057594037927936) = Fin (1080863910568919 / 2 ^ 56)"
proof -
  have "to_double (1080863910568919 / 72057594037927936)
      = Fin (of_int 8646911284551352 * (1 / 2 ^ 59))"
  proof (rule to_double_value [where e = "- 7"])
    show "binary_exponent (1080863910568919 / 72057594037927936) = - 7"
      by (rule exponent_normal) (simp_all add: pow2_def)
    show "pow2 (- 7 - 52) = 1 / 2 ^ 59" by (simp add: pow2_def)
    show "round_half_even (1080863910568919 / 72057594037927936 / (1 / 2 ^ 59))
        = 8646911284551352"
      by (simp add: round_half_even_def Let_def)
    show "\<bar>of_int 8646911284551352 * (1 / 2 ^ 59)\<bar> < pow2 1024"
      by (simp add: pow2_def)
  qed simp
  then show ?thesis by simp
qed

lemma round2_small:
  assumes "0 \<le> v" and "v < hundredth"
  shows "round2 (Fin v) = Fin 0 \<or> round2 (Fin v) = Fin hundredth"
proof -
  define y where "y = v * 100"
  from assms have y0: "0 \<le> y" and y1: "y < 3 / 2"
    by (simp_all add: y_def hundredth_def)
  then have "\<lfloor>y\<rfloor> = 0 \<or> \<lfloor>y\<rfloor> = 1" by linarith
  then have "round_half_even y = 0 \<or> round_half_even y = 1"
  proof
    assume "\<lfloor>y\<rfloor> = 0"
    then show ?thesis by (simp add: round_half_even_def Let_def)
  next
    assume f: "\<lfloor>y\<rfloor> = 1"
    with y1 show ?thesis by (simp add: round_half_even_def Let_def)
  qed
  then show ?thesis
    by (auto simp add: round2_def y_def [symmetric] to_double_zero to_double_hundredth)
qed

lemma float_mul_positive:
  assumes "fl_less (Fin 0) a" and "fl_less (Fin 0) b"
  shows "float_mul a b = PInf \<or> (\<exists>r. float_mul a b = Fin r \<and> 0 \<le> r)"
proof (cases a)
  case (Fin x)
  note a = Fin
  show ?thesis
  proof (cases b)
    case (Fin y)
    with a assms have "0 \<le> x * y" by simp
    from to_double_nonneg [OF this] a Fin show ?thesis
      by (simp add: float_mul_def rounded_def)
  qed (use a assms in \<open>simp_all add: float_mul_def rounded_def signed_inf_def\<close>)
next
  case PInf
  with assms show ?thesis
    by (cases b) (simp_all add: float_mul_def rounded_def signed_inf_def)
qed (use assms in simp_all)

lemma py_max_at_least: "fl_le (Fin c) (py_max (Fin c) b)"
  by (cases b) (simp_all add: fl_le_def py_max_def)

text \<open>
  C10 (as amended). With positive capital, risk fraction, ATR and contract multiplier,
  the function raises \<open>ZeroDivisionError\<close> when the float product
  \<open>atr * contract_multiplier\<close> is zero, and otherwise it returns a size, and the size is
  at least \<open>0.01\<close>. When the quotient of the risk budget by the risk per contract that
  the function computes is below \<open>0.01\<close>, the size returned is exactly \<open>0.01\<close>, and the
  risk of that position, size times risk per contract, is larger than the budget
  \<open>total_capital * risk_per_trade\<close>.
\<close>

theorem calculate_position_size_floor:
  assumes "fl_less (Fin 0) total_capital" and "fl_less (Fin 0) risk_per_trade"
    and "fl_less (Fin 0) atr" and "fl_less (Fin 0) contract_multiplier"
  shows "(float_mul atr contract_multiplier = Fin 0
            \<longrightarrow> calculate_position_size total_capital risk_per_trade atr contract_multiplier
                  = Inl ZeroDivisionError)
       \<and> (float_mul atr contract_multiplier \<noteq> Fin 0
            \<longrightarrow> (\<exists>position_size size.
                   float_truediv (float_mul total_capital risk_per_trade)
                     (float_mul atr contract_multiplier) = Inr position_size
                 \<and> calculate_position_size total_capital risk_per_trade atr contract_multiplier
                     = Inr size
                 \<and> fl_le (Fin hundredth) size
                 \<and> (fl_less position_size (Fin hundredth)
                      \<longrightarrow> size = Fin hundredth
                        \<and> fl_less (float_mul total_capital risk_per_trade)
                            (fl_mul size (float_mul atr contract_multiplier)))))"
proof (intro conjI impI)
  assume "float_mul atr contract_multiplier = Fin 0"
  then show "calculate_position_size total_capital risk_per_trade atr contract_multiplier
      = Inl ZeroDivisionError"
    by (simp add: calculate_position_size_def float_truediv_def Let_def)
next
  define total_risk where "total_risk = float_mul total_capital risk_per_trade"
  define risk_per_contract where "risk_per_contract = float_mul atr contract_multiplier"
  define position_size where "position_size = rounded (fl_div total_risk risk_per_contract)"
  define size where "size = py_max (Fin hundredth) (round2 position_size)"
  assume "float_mul atr contract_multiplier \<noteq> Fin 0"
  then have nz: "risk_per_contract \<noteq> Fin 0" by (simp add: risk_per_contract_def)
  then have quotient: "float_truediv total_risk risk_per_contract = Inr position_size"
    by (simp add: float_truediv_def position_size_def)
  then have ret: "calculate_position_size total_capital risk_per_trade atr contract_multiplier
      = Inr size"
    by (simp add: calculate_position_size_def Let_def size_def
        total_risk_def [symmetric] risk_per_contract_def [symmetric])
  have floor: "fl_le (Fin hundredth) size"
    unfolding size_def by (rule py_max_at_least)
  have hpos: "0 < hundredth" using hundredth_bounds by simp
  have budget: "total_risk = PInf \<or> (\<exists>t. total_risk = Fin t \<and> 0 \<le> t)"
    unfolding total_risk_def using assms(1,2) by (rule float_mul_positive)
  have risk: "risk_per_contract = PInf \<or> (\<exists>r. risk_per_contract = Fin r \<and> 0 < r)"
    using float_mul_positive [OF assms(3,4)] nz
    by (auto simp add: risk_per_contract_def [symmetric] less_le)
  have small: "size = Fin hundredth \<and> fl_less total_risk (fl_mul size risk_per_contract)"
    if lt: "fl_less position_size (Fin hundredth)"
  proof -
    from budget obtain t where t: "total_risk = Fin t" "0 \<le> t"
    proof
      assume inf: "total_risk = PInf"
      from risk have "position_size = PInf \<or> position_size = NaN"
        by (auto simp add: position_size_def inf rounded_def signed_inf_def)
      with lt have False by auto
      then show ?thesis ..
    qed auto
    from risk show ?thesis
    proof
      assume inf: "risk_per_contract = PInf"
      have "position_size = Fin 0"
        by (simp add: position_size_def t inf rounded_def to_double_zero)
      then have "round2 position_size = Fin 0"
        by (simp add: round2_def round_half_even_def to_double_zero)
      with hpos have "size = Fin hundredth" by (simp add: size_def py_max_def)
      with hpos show ?thesis by (simp add: t inf signed_inf_def)
    next
      assume "\<exists>r. risk_per_contract = Fin r \<and> 0 < r"
      then obtain r where r: "risk_per_contract = Fin r" "0 < r" by blast
      have ps: "position_size = to_double (t / r)"
        using r by (simp add: position_size_def t rounded_def)
      from t r have "0 \<le> t / r" by simp
      from to_double_nonneg [OF this] lt ps
      obtain v where v: "position_size = Fin v" "0 \<le> v" by auto
      with lt have vh: "v < hundredth" by simp
      from round2_small [OF v(2) vh] v(1) hpos have sz: "size = Fin hundredth"
        by (auto simp add: size_def py_max_def)
      have "t < hundredth * r"
      proof (rule ccontr)
        assume "\<not> t < hundredth * r"
        with r(2) have "hundredth \<le> t / r" by (simp add: pos_le_divide_eq)
        from to_double_at_least [OF this] ps v(1) vh show False by auto
      qed
      with sz show ?thesis by (simp add: t r)
    qed
  qed
  from quotient ret floor small
  show "\<exists>position_size size.
      float_truediv (float_mul total_capital risk_per_trade)
        (float_mul atr contract_multiplier) = Inr position_size
      \<and> calculate_position_size total_capital risk_per_trade atr contract_multiplier = Inr size
      \<and> fl_le (Fin hundredth) size
      \<and> (fl_less position_size (Fin hundredth)
           \<longrightarrow> size = Fin hundredth
             \<and> fl_less (float_mul total_capital risk_per_trade)
                 (fl_mul size (float_mul atr contract_multiplier)))"
    unfolding total_risk_def risk_per_contract_def by blast
qed

lemma example_budget: "float_mul (Fin 1000) (Fin hundredth) = Fin 10"
  by (simp add: float_mul_def rounded_def to_double_budget)

lemma example_risk: "float_mul (Fin 100) (Fin 100) = Fin 10000"
  by (simp add: float_mul_def rounded_def to_double_10000)

lemma example_quotient:
  "float_truediv (Fin 10) (Fin 10000) = Inr (Fin (1152921504606847 / 2 ^ 60))"
  by (simp add: float_truediv_def rounded_def to_double_thousandth)

lemma example_underflow: "float_mul (Fin float_1e_200) (Fin float_1e_200) = Fin 0"
  by (simp add: float_mul_def rounded_def to_double_tiny_product)

theorem calculate_position_size_floor_witness:
  "calculate_position_size (Fin 1000) (Fin hundredth) (Fin 100) (Fin 100) = Inr (Fin hundredth)
   \<and> fl_less (Fin 10) (fl_mul (Fin hundredth) (Fin 10000))
   \<and> calculate_position_size (Fin 1000) (Fin hundredth) (Fin float_1e_200) (Fin float_1e_200)
       = Inl ZeroDivisionError"
proof -
  have positive: "fl_less (Fin 0) (Fin hundredth)" "fl_less (Fin 0) (Fin float_1e_200)"
    and small: "fl_less (Fin (1152921504606847 / 2 ^ 60)) (Fin hundredth)"
    by (simp_all add: hundredth_def float_1e_200_def)
  from calculate_position_size_floor [of "Fin 1000" "Fin hundredth" "Fin 100" "Fin 100"]
    calculate_position_size_floor [of "Fin 1000" "Fin hundredth" "Fin float_1e_200"
      "Fin float_1e_200"]
    positive small
  show ?thesis
    by (auto simp add: example_budget example_risk example_quotient example_underflow)
qed

text \<open>
  C10 as stated fails for positive arguments whose product is rounded to zero: with an
  ATR and a contract multiplier of \<open>1e-200\<close> the risk per contract is \<open>0.0\<close>, and the
  division raises \<open>ZeroDivisionError\<close> instead of returning a size.
\<close>

theorem calculate_position_size_counterexample:
  "fl_less (Fin 0) (Fin 1000) \<and> fl_less (Fin 0) (Fin hundredth)
   \<and> fl_less (Fin 0) (Fin float_1e_200)
   \<and> float_mul (Fin float_1e_200) (Fin float_1e_200) = Fin 0
   \<and> calculate_position_size (Fin 1000) (Fin hundredth) (Fin float_1e_200) (Fin float_1e_200)
       = Inl ZeroDivisionError"
  by (simp add: calculate_position_size_def float_mul_def float_truediv_def rounded_def
      Let_def to_double_tiny_product) (simp add: hundredth_def float_1e_200_def)

text \<open>
  The rounding is that of the floats: the budget \<open>3.0 * 0.01\<close> is the float just below
  0.03, half of it is below 0.015, and \<open>round\<close> takes it down to \<open>0.01\<close>.
\<close>

lemma position_size_rounds_the_float:
  "calculate_position_size (Fin 3) (Fin hundredth) (Fin 2) (Fin 1) = Inr (Fin hundredth)"
proof -
  have "round_half_even (1080863910568919 / 2 ^ 56 * 100) = 1"
    by (simp add: round_half_even_def Let_def)
  then have "round2 (Fin (1080863910568919 / 2 ^ 56)) = Fin hundredth"
    by (simp add: round2_def to_double_hundredth)
  then show ?thesis
    by (simp add: calculate_position_size_def float_mul_def float_truediv_def rounded_def
        Let_def to_double_two to_double_three_hundredths to_double_half_budget py_max_def)
qed

section \<open>Option sentiment: results\<close>

lemma mock_not_empty: "\<not> option_frame_empty (mock_option_frame s c)"
  by (simp add: option_frame_empty_def mock_option_frame_def)

lemma retry_loop_result:
  "retry_loop api c s k od = Some df \<Longrightarrow> k < max_retries \<or> \<not> none_or_empty od
    \<Longrightarrow> \<not> option_frame_empty df"
proof (induction api c s k od rule: retry_loop.induct)
  case (1 api commodity_name symbol retry_count option_df)
  note IH = "1.IH" and res = "1.prems"(1) and pre = "1.prems"(2)
  note unfold = retry_loop.simps [of api commodity_name symbol retry_count option_df]
  show ?case
  proof (cases "retry_count < max_retries \<and> none_or_empty option_df")
    case False
    with pre have ne: "\<not> none_or_empty option_df" by blast
    have "retry_loop api commodity_name symbol retry_count option_df = option_df"
      by (subst unfold) (use False in auto)
    with res have "option_df = Some df" by simp
    with ne show ?thesis by (simp add: none_or_empty_def)
  next
    case True
    define fetched where "fetched = (case api commodity_name symbol retry_count of
                         OptionRaises \<Rightarrow> option_df
                       | OptionReturns r \<Rightarrow> r)"
    show ?thesis
    proof (cases "api commodity_name symbol retry_count \<noteq> OptionRaises \<and> \<not> none_or_empty fetched")
      case good: True
      with True have "retry_loop api commodity_name symbol retry_count option_df
          = retry_loop api commodity_name symbol (retry_count + 1) fetched"
        using unfold by (simp add: fetched_def Let_def)
      with res have "retry_loop api commodity_name symbol (retry_count + 1) fetched = Some df"
        by simp
      moreover from good have "retry_count + 1 < max_retries \<or> \<not> none_or_empty fetched" by simp
      ultimately show ?thesis
        using IH(1)[OF True fetched_def good] by blast
    next
      case bad: False
      show ?thesis
      proof (cases "retry_count + 1 < max_retries")
        case more: True
        with True bad have "retry_loop api commodity_name symbol retry_count option_df
            = retry_loop api commodity_name symbol (retry_count + 1) fetched"
          using unfold by (auto simp add: fetched_def Let_def)
        with res have "retry_loop api commodity_name symbol (retry_count + 1) fetched = Some df"
          by simp
        then show ?thesis
          using IH(2)[OF True fetched_def bad more] more by blast
      next
        case last: False
        with True bad have "retry_loop api commodity_name symbol retry_count option_df
            = retry_loop api commodity_name symbol (retry_count + 1)
                  (Some (mock_option_frame symbol commodity_name))"
          using unfold by (auto simp add: fetched_def Let_def)
        with res have "retry_loop api commodity_name symbol (retry_count + 1)
                  (Some (mock_option_frame symbol commodity_name)) = Some df"
          by simp
        then show ?thesis
          using IH(3)[OF True fetched_def bad last] mock_not_empty
          by (simp add: none_or_empty_def)
      qed
    qed
  qed
qed

lemma retry_loop_fetched:
  "retry_loop api c s 0 None = Some df \<Longrightarrow> \<not> option_frame_empty df"
  using retry_loop_result [of api c s 0 None df] by (simp add: max_retries_def)

text \<open>
  C9 (as amended). Whenever the table the retry loop delivers has the four T-quote
  volume columns (bid and ask volume of the calls and of the puts) with a positive total
  call volume and a positive total put volume, \<open>get_option_pcr\<close> of \<open>data_utils.py\<close>
  answers call volume divided by put volume and the dashboard's \<open>get_option_pcr\<close> answers
  put volume divided by call volume. The two answers are reciprocal, the dashboard's is
  the glossary's put/call ratio, and that of \<open>data_utils.py\<close> differs from it unless the
  volumes are equal.
\<close>

theorem pcr_directions_opposite:
  assumes fetched: "retry_loop api (commodity_name_of (contract_of symbol)) (contract_of symbol) 0 None
      = Some option_df"
    and calls: "pair_total option_df cn_call_buy_volume cn_call_sell_volume
      = Inr (TNum (Fin call_volume))"
    and puts: "pair_total option_df cn_put_buy_volume cn_put_sell_volume
      = Inr (TNum (Fin put_volume))"
    and pos: "0 < call_volume" "0 < put_volume"
  shows "get_option_pcr api symbol = \<lparr>pcr = Fin (call_volume / put_volume), pcr_type = Options\<rparr>
    \<and> get_option_pcr_v6 api oi_change_rate symbol
        = \<lparr>pcr = Fin (put_call_ratio put_volume call_volume), pcr_type = Options\<rparr>
    \<and> call_volume / put_volume * put_call_ratio put_volume call_volume = 1
    \<and> (call_volume \<noteq> put_volume
        \<longrightarrow> call_volume / put_volume \<noteq> put_call_ratio put_volume call_volume)"
proof (intro conjI)
  from fetched have ne: "\<not> option_frame_empty option_df" by (rule retry_loop_fetched)
  show "get_option_pcr api symbol = \<lparr>pcr = Fin (call_volume / put_volume), pcr_type = Options\<rparr>"
    using fetched ne calls puts pos by (simp add: get_option_pcr_def Let_def)
  show "get_option_pcr_v6 api oi_change_rate symbol
        = \<lparr>pcr = Fin (put_call_ratio put_volume call_volume), pcr_type = Options\<rparr>"
    using fetched ne calls puts pos by (simp add: get_option_pcr_v6_def Let_def put_call_ratio_def)
  show "call_volume / put_volume * put_call_ratio put_volume call_volume = 1"
    using pos by (simp add: put_call_ratio_def)
  show "call_volume \<noteq> put_volume
        \<longrightarrow> call_volume / put_volume \<noteq> put_call_ratio put_volume call_volume"
  proof
    assume neq: "call_volume \<noteq> put_volume"
    show "call_volume / put_volume \<noteq> put_call_ratio put_volume call_volume"
    proof
      assume "call_volume / put_volume = put_call_ratio put_volume call_volume"
      with pos have "call_volume * call_volume = put_volume * put_volume"
        by (simp add: put_call_ratio_def frac_eq_eq)
      then have "call_volume\<^sup>2 = put_volume\<^sup>2" by (simp add: power2_eq_square)
      with pos have "call_volume = put_volume"
        by (simp add: power2_eq_iff_nonneg)
      with neq show False by simp
    qed
  qed
qed

lemma example_fetched: "retry_loop (\<lambda>c s n. OptionReturns (Some example_option_frame)) c s 0 None = Some example_option_frame"
  by (simp add: retry_loop.simps[of _ _ _ 0] retry_loop.simps[of _ _ _ "Suc 0"] max_retries_def none_or_empty_def option_frame_empty_def example_option_frame_def)
lemma example_call_total: "pair_total example_option_frame cn_call_buy_volume cn_call_sell_volume = Inr (TNum (Fin 40))"
  by (simp add: pair_total_def example_option_frame_def ocolumn_of_def sum_skipna_def cn_call_buy_volume_def cn_call_sell_volume_def cn_put_buy_volume_def cn_put_sell_volume_def)
lemma example_put_total: "pair_total example_option_frame cn_put_buy_volume cn_put_sell_volume = Inr (TNum (Fin 60))"
  by (simp add: pair_total_def example_option_frame_def ocolumn_of_def sum_skipna_def cn_call_buy_volume_def cn_call_sell_volume_def cn_put_buy_volume_def cn_put_sell_volume_def)

theorem pcr_directions_opposite_witness:
  "get_option_pcr (\<lambda>c s n. OptionReturns (Some example_option_frame)) ''rb2605'' = \<lparr>pcr = Fin (2 / 3), pcr_type = Options\<rparr>
   \<and> get_option_pcr_v6 (\<lambda>c s n. OptionReturns (Some example_option_frame)) None ''rb2605'' = \<lparr>pcr = Fin (3 / 2), pcr_type = Options\<rparr>"
  using pcr_directions_opposite [OF example_fetched example_call_total example_put_total, of "''rb2605''" None]
  by (simp add: put_call_ratio_def)

lemma failing_api_stand_in:
  "retry_loop failing_option_api c s 0 None = Some (mock_option_frame s c)"
  by (simp add: retry_loop.simps [of _ _ _ 0] retry_loop.simps [of _ _ _ "Suc 0"]
      retry_loop.simps [of _ _ _ "Suc (Suc 0)"] retry_loop.simps [of _ _ _ "Suc (Suc (Suc 0))"]
      max_retries_def none_or_empty_def failing_option_api_def)

lemma stand_in_no_quote_columns:
  "pair_total (mock_option_frame s c) cn_call_buy_volume cn_call_sell_volume = Inl KeyError"
  by (simp add: pair_total_def mock_option_frame_def ocolumn_of_def cn_call_buy_volume_def
      cn_code_def cn_name_def cn_kind_def cn_strike_def cn_last_price_def cn_change_pct_def
      cn_volume_def cn_open_interest_def)

lemma stand_in_call_total:
  "kind_total (mock_option_frame s c) cn_call = Inr (TNum (Fin 1000))"
  by (simp add: kind_total_def mock_option_frame_def ocolumn_of_def sum_skipna_def
      cn_code_def cn_name_def cn_kind_def cn_strike_def cn_last_price_def cn_change_pct_def
      cn_volume_def cn_open_interest_def cn_call_def cn_put_def)

lemma stand_in_put_total:
  "kind_total (mock_option_frame s c) cn_put = Inr (TNum (Fin 800))"
  by (simp add: kind_total_def mock_option_frame_def ocolumn_of_def sum_skipna_def
      cn_code_def cn_name_def cn_kind_def cn_strike_def cn_last_price_def cn_change_pct_def
      cn_volume_def cn_open_interest_def cn_call_def cn_put_def)

text \<open>
  C9 as stated fails on the stand-in table that both files put in place of the data
  after three failed attempts. Its call volume is 1000 and its put volume 800, both
  positive, but it has the type and volume columns, not the four T-quote columns:
  \<open>data_utils.py\<close> reads them through its fallback and answers call/put, 1.25; the
  dashboard has no fallback, ends in its handler and, with no open-interest data,
  answers 1.0 of type default, which is not the put/call ratio 0.8.
\<close>

theorem pcr_stand_in_counterexample:
  "retry_loop failing_option_api (commodity_name_of (contract_of ''rb2605'')) (contract_of ''rb2605'') 0 None
      = Some (mock_option_frame (contract_of ''rb2605'') (commodity_name_of (contract_of ''rb2605'')))
   \<and> kind_total (mock_option_frame (contract_of ''rb2605'') (commodity_name_of (contract_of ''rb2605''))) cn_call
      = Inr (TNum (Fin 1000))
   \<and> kind_total (mock_option_frame (contract_of ''rb2605'') (commodity_name_of (contract_of ''rb2605''))) cn_put
      = Inr (TNum (Fin 800))
   \<and> get_option_pcr failing_option_api ''rb2605'' = \<lparr>pcr = Fin (5 / 4), pcr_type = Options\<rparr>
   \<and> get_option_pcr_v6 failing_option_api None ''rb2605'' = \<lparr>pcr = Fin 1, pcr_type = Default\<rparr>
   \<and> put_call_ratio 800 1000 = 4 / 5"
  by (simp add: get_option_pcr_def get_option_pcr_v6_def Let_def failing_api_stand_in
      mock_not_empty stand_in_no_quote_columns stand_in_call_total stand_in_put_total
      put_call_ratio_def)

section \<open>Position-ranking fetch: lemmas\<close>

lemma set_columns_labels:
  "set_columns df labels = Inr d \<Longrightarrow> columns d = labels \<and> nrows d = nrows df"
  by (auto simp: set_columns_def columns_def split: if_splits)

lemma select_columns_nrows:
  "select_columns df labels = Inr d \<Longrightarrow> nrows d = nrows df"
  by (auto simp: select_columns_def split: if_splits)

lemma pick_unified:
  assumes "pick df labels = Inr d"
  shows "columns d = unified_columns \<and> nrows d = nrows df"
proof -
  from assms obtain s where s: "select_columns df labels = Inr s"
    and d: "set_columns s unified_columns = Inr d"
    by (auto simp: pick_def split: sum.splits)
  from set_columns_labels [OF d] select_columns_nrows [OF s] show ?thesis by simp
qed

lemma pick_case:
  "(case pick df labels of Inl e \<Rightarrow> Inl e | Inr x \<Rightarrow> Inr (Inr x)) = Inr (Inr d)
    \<Longrightarrow> pick df labels = Inr d"
  by (cases "pick df labels") auto

lemma try_possible_unified:
  "try_possible df alternatives = Some (Inr d) \<Longrightarrow> columns d = unified_columns \<and> nrows d = nrows df"
  by (induction alternatives) (auto split: if_splits dest: pick_unified)

lemma try_possible_case:
  "(case try_possible df alternatives of
      None \<Rightarrow> Inr (Inl msg) | Some (Inl e) \<Rightarrow> Inl e | Some (Inr x) \<Rightarrow> Inr (Inr x)) = Inr (Inr d)
    \<Longrightarrow> try_possible df alternatives = Some (Inr d)"
  by (cases "try_possible df alternatives") (auto split: sum.splits)


lemma standardize_unified:
  assumes "standardize df data_type = Inr (Inr d)"
  shows "columns d = unified_columns \<and> nrows d = nrows df"
proof -
  from assms have "\<exists>labels. pick df labels = Inr d"
    by (simp only: standardize_def split: if_splits) (blast dest: pick_case | simp)+
  then show ?thesis by (auto dest: pick_unified)
qed
lemma standardize_v6_unified:
  assumes "standardize_v6 df data_type = Inr (Inr d)"
  shows "columns d = unified_columns \<and> nrows d = nrows df"
proof -
  from assms have "(\<exists>labels. pick df labels = Inr d)
      \<or> (\<exists>alternatives. try_possible df alternatives = Some (Inr d))"
    by (simp only: standardize_v6_def split: if_splits)
      (blast dest: pick_case try_possible_case | simp)+
  then show ?thesis by (auto dest: pick_unified try_possible_unified)
qed
lemma df_head_columns: "columns (df_head n df) = columns df"
  by (simp add: df_head_def columns_def case_prod_unfold)

lemma df_head_nrows: "nrows (df_head n df) = min n (nrows df)"
  by (simp add: df_head_def)

lemma df_head_cells: "(l, cells) \<in> set (cols (df_head n df)) \<Longrightarrow> length cells \<le> n"
  by (auto simp: df_head_def)

lemma df_empty_columns: "df_empty df \<longleftrightarrow> nrows df = 0 \<or> columns df = []"
  by (simp add: df_empty_def columns_def)

lemma unified_columns_not_empty: "unified_columns \<noteq> []"
  by (simp add: unified_columns_def)

lemma df_empty_empty_frame: "df_empty empty_frame"
  by (simp add: df_empty_def empty_frame_def)

text \<open>The last step of both functions, from the outcome of the walk to the triple.\<close>

lemma finish_exclusive:
  assumes std: "\<And>d. std rank_df data_type = Inr (Inr d) \<Longrightarrow> columns d = unified_columns \<and> nrows d = nrows rank_df"
  shows "(case (if df_empty rank_df then (empty_frame, None, Some (NoRankData symbol))
                 else
                   (case std rank_df data_type of
                      Inl e \<Rightarrow> (empty_frame, None, Some (FetchFailed e))
                    | Inr (Inl msg) \<Rightarrow> (empty_frame, None, Some msg)
                    | Inr (Inr df) \<Rightarrow> (df_head 20 df, Some data_date, None))) of
           (df, dd, err) \<Rightarrow> (\<not> df_empty df \<and> err = None \<or> df_empty df \<and> err \<noteq> None)
              \<and> (err = None \<longrightarrow> columns df = unified_columns \<and> nrows df \<le> 20))"
proof (cases "df_empty rank_df")
  case True
  then show ?thesis by (simp add: df_empty_empty_frame)
next
  case False
  show ?thesis
  proof (cases "std rank_df data_type")
    case (Inl e)
    with False show ?thesis by (simp add: df_empty_empty_frame)
  next
    case (Inr r)
    show ?thesis
    proof (cases r)
      case (Inl msg)
      with False \<open>std rank_df data_type = Inr r\<close> show ?thesis
        by (simp add: df_empty_empty_frame)
    next
      case (Inr d)
      with \<open>std rank_df data_type = Inr r\<close> have "std rank_df data_type = Inr (Inr d)" by simp
      from std [OF this] False have "columns d = unified_columns" and "nrows d \<noteq> 0"
        by (simp_all add: df_empty_def)
      with False Inr \<open>std rank_df data_type = Inr r\<close> show ?thesis
        by (simp add: df_empty_columns df_head_columns df_head_nrows unified_columns_not_empty)
    qed
  qed
qed

lemma main_du:
  "(case snd (get_holding_rank_data api now symbol data_type) of
           (df, dd, err) \<Rightarrow> (\<not> df_empty df \<and> err = None \<or> df_empty df \<and> err \<noteq> None)
              \<and> (err = None \<longrightarrow> columns df = unified_columns \<and> nrows df \<le> 20))"
proof (cases "get_exchange_by_symbol symbol")
  case None
  then show ?thesis
    by (simp add: get_holding_rank_data_def df_empty_empty_frame)
next
  case (Some exchange)
  obtain queried outcome where w:
    "walk (\<lambda>target_date_str. try_day (api exchange target_date_str (product_code_of symbol)) symbol)
       now [0..<max_days] = (queried, outcome)"
    by (cases "walk (\<lambda>target_date_str. try_day (api exchange target_date_str (product_code_of symbol)) symbol)
       now [0..<max_days]")
  show ?thesis
  proof (cases outcome)
    case (Inl e)
    with Some w show ?thesis
      by (simp add: get_holding_rank_data_def df_empty_empty_frame)
  next
    case (Inr found)
    show ?thesis
    proof (cases found)
      case None
      with Some w Inr show ?thesis
        by (simp add: get_holding_rank_data_def df_empty_empty_frame)
    next
      case (Some p)
      obtain data_date rank_df where p: "p = (data_date, rank_df)" by (cases p)
      from \<open>get_exchange_by_symbol symbol = Some exchange\<close> w Inr Some p show ?thesis
        using finish_exclusive [of standardize rank_df data_type symbol data_date, OF standardize_unified]
        by (simp add: get_holding_rank_data_def)
    qed
  qed
qed

lemma main_v6:
  "(case snd (get_holding_rank_data_v6 api now symbol data_type) of
           (df, dd, err) \<Rightarrow> (\<not> df_empty df \<and> err = None \<or> df_empty df \<and> err \<noteq> None)
              \<and> (err = None \<longrightarrow> columns df = unified_columns \<and> nrows df \<le> 20))"
proof (cases "get_exchange_by_symbol_v6 symbol")
  case None
  then show ?thesis
    by (simp add: get_holding_rank_data_v6_def df_empty_empty_frame)
next
  case (Some exchange)
  obtain queried outcome where w:
    "walk (\<lambda>target_date_str.
             try_day_v6 (api exchange target_date_str (product_code_of symbol)) symbol target_date_str)
       now [start_day now..<max_days] = (queried, outcome)"
    by (cases "walk (\<lambda>target_date_str.
             try_day_v6 (api exchange target_date_str (product_code_of symbol)) symbol target_date_str)
       now [start_day now..<max_days]")
  show ?thesis
  proof (cases outcome)
    case (Inl e)
    with Some w show ?thesis
      by (simp add: get_holding_rank_data_v6_def df_empty_empty_frame)
  next
    case (Inr found)
    show ?thesis
    proof (cases found)
      case None
      with Some w Inr show ?thesis
        by (simp add: get_holding_rank_data_v6_def df_empty_empty_frame)
    next
      case (Some p)
      obtain data_date rank_df where p: "p = (data_date, rank_df)" by (cases p)
      from \<open>get_exchange_by_symbol_v6 symbol = Some exchange\<close> w Inr Some p show ?thesis
        using finish_exclusive [of standardize_v6 rank_df data_type symbol data_date,
            OF standardize_v6_unified]
        by (simp add: get_holding_rank_data_v6_def)
    qed
  qed
qed

text \<open>The log of the walk.\<close>

lemma minus_days_ordinal:
  "minus_days now k = Inr t \<Longrightarrow> ordinal t = ordinal now - int k"
  by (auto simp: minus_days_def split: if_splits)

lemma walk_log_offsets:
  "d \<in> set (fst (walk attempt now offsets)) \<Longrightarrow> \<exists>k\<in>set offsets. d = ordinal now - int k"
proof (induction offsets)
  case Nil
  then show ?case by simp
next
  case (Cons k ks)
  then show ?case
    by (auto split: sum.splits if_splits option.splits prod.splits dest: minus_days_ordinal)
qed

lemma walk_log_weekdays:
  "d \<in> set (fst (walk attempt now offsets)) \<Longrightarrow> weekday_of d \<noteq> 5 \<and> weekday_of d \<noteq> 6"
proof (induction offsets)
  case Nil
  then show ?case by simp
next
  case (Cons k ks)
  then show ?case
    by (auto simp: weekday_def split: sum.splits if_splits option.splits prod.splits)
qed

lemma walk_log_length:
  "length (fst (walk attempt now offsets)) \<le> length offsets"
  by (induction offsets) (auto split: sum.splits option.splits prod.splits)

lemma walk_log_distinct:
  "distinct offsets \<Longrightarrow> distinct (fst (walk attempt now offsets))"
proof (induction offsets)
  case Nil
  then show ?case by simp
next
  case (Cons k ks)
  have fresh: "ordinal now - int k \<notin> set (fst (walk attempt now ks))"
  proof
    assume "ordinal now - int k \<in> set (fst (walk attempt now ks))"
    then obtain j where "j \<in> set ks" and "ordinal now - int k = ordinal now - int j"
      using walk_log_offsets by blast
    with Cons.prems show False by simp
  qed
  from Cons have "distinct (fst (walk attempt now ks))" by simp
  with fresh show ?case
    by (auto split: sum.splits option.splits prod.splits dest: minus_days_ordinal)
qed

lemma walk_budget:
  assumes "set offsets \<subseteq> {0..<max_days}" and "distinct offsets"
  shows "length (fst (walk attempt now offsets)) \<le> 30
    \<and> distinct (fst (walk attempt now offsets))
    \<and> (\<forall>d\<in>set (fst (walk attempt now offsets)).
          weekday_of d \<noteq> 5 \<and> weekday_of d \<noteq> 6
          \<and> ordinal now - 29 \<le> d \<and> d \<le> ordinal now)"
proof (intro conjI ballI)
  from assms have "card (set offsets) \<le> card {0..<max_days}"
    by (intro card_mono) simp_all
  with assms(2) have "length offsets \<le> 30"
    by (simp add: distinct_card max_days_def)
  with walk_log_length [of attempt now offsets]
  show "length (fst (walk attempt now offsets)) \<le> 30" by linarith
  show "distinct (fst (walk attempt now offsets))"
    using assms(2) by (rule walk_log_distinct)
next
  fix d assume d: "d \<in> set (fst (walk attempt now offsets))"
  then show "weekday_of d \<noteq> 5" and "weekday_of d \<noteq> 6"
    using walk_log_weekdays by blast+
  from d obtain k where "k \<in> set offsets" and dk: "d = ordinal now - int k"
    using walk_log_offsets by blast
  with assms(1) have "k < 30" by (auto simp: max_days_def)
  with dk show "ordinal now - 29 \<le> d" and "d \<le> ordinal now" by simp_all
qed

lemma queried_du:
  "fst (get_holding_rank_data api now symbol data_type) =
    (case get_exchange_by_symbol symbol of
       None \<Rightarrow> []
     | Some exchange \<Rightarrow>
        fst (walk (\<lambda>target_date_str.
                     try_day (api exchange target_date_str (product_code_of symbol)) symbol)
               now [0..<max_days]))"
  by (simp add: get_holding_rank_data_def Let_def split: option.splits prod.splits)

lemma queried_v6:
  "fst (get_holding_rank_data_v6 api now symbol data_type) =
    (case get_exchange_by_symbol_v6 symbol of
       None \<Rightarrow> []
     | Some exchange \<Rightarrow>
        fst (walk (\<lambda>target_date_str.
                     try_day_v6 (api exchange target_date_str (product_code_of symbol)) symbol
                       target_date_str)
               now [start_day now..<max_days]))"
  by (simp add: get_holding_rank_data_v6_def Let_def split: option.splits prod.splits)

lemma walk_first_today:
  assumes "1 \<le> ordinal now" and "weekday now \<noteq> 5" and "weekday now \<noteq> 6"
  shows "\<exists>rest. fst (walk attempt now (0 # offsets)) = ordinal now # rest"
proof -
  from assms(1) have "minus_days now 0 = Inr now"
    by (simp add: minus_days_def)
  with assms(2,3) show ?thesis
    by (auto split: option.splits prod.splits)
qed

lemma start_day_cutoff: "start_day now = (if past_cutoff now then 0 else 1)"
  by (auto simp: start_day_def past_cutoff_def dt_less_def update_time_def)

lemma example_morning_date: "strftime_Ymd example_morning = ''20250108''"
  by (simp add: example_morning_def strftime_Ymd_def ord2ymd_def Let_def DAYS_BEFORE_MONTH_def
      DAYS_IN_MONTH_def digit_def)

lemma example_route: "get_exchange_by_symbol ''IF2506'' = Some CFFEX"
  by (simp add: get_exchange_by_symbol_def product_code_of_def upper_def upper_char_def
      ascii_lower_def ascii_upper_def isdigit_def FUTURE_EXCHANGE_MAP_def)

lemma example_route_v6: "get_exchange_by_symbol_v6 ''IF2506'' = Some DCE"
  by (simp add: get_exchange_by_symbol_v6_def lower_def lower_char_def
      ascii_lower_def ascii_upper_def FUTURE_EXCHANGE_MAP_def)

lemma example_standardize: "standardize example_table cn_long_position = Inr (Inr example_ranking)"
  by (simp add: standardize_def example_table_def example_ranking_def columns_def pick_def
      select_columns_def set_columns_def unified_columns_def
      cn_long_position_def cn_volume_ranking_def cn_volume_def)

lemma example_walk:
  "walk (\<lambda>target_date_str. try_day (example_api CFFEX target_date_str v) ''IF2506'') example_morning [0..<max_days]
    = ([739259], Inr (Some (''20250108'', example_table)))"
proof -
  have u: "[0..<max_days] = 0 # [1..<max_days]"
    by (simp add: max_days_def upt_conv_Cons)
  have m: "minus_days example_morning 0 = Inr example_morning"
    by (simp add: minus_days_def example_morning_def)
  have w: "weekday example_morning = 2"
    by (simp add: weekday_def weekday_of_def example_morning_def)
  have t: "try_day (example_api CFFEX d v) ''IF2506'' = Some example_table" for d
    by (simp add: try_day_def example_api_def)
  show ?thesis
    unfolding u by (simp add: m w t example_morning_date) (simp add: example_morning_def)
qed

lemma example_run:
  "get_holding_rank_data example_api example_morning ''IF2506'' cn_long_position
    = ([739259], (example_ranking, Some ''20250108'', None))"
proof -
  have ne: "\<not> df_empty example_table" by (simp add: df_empty_def example_table_def)
  have h: "df_head 20 example_ranking = example_ranking"
    by (simp add: df_head_def example_ranking_def)
  show ?thesis
    by (simp add: get_holding_rank_data_def example_route example_walk ne example_standardize h)
qed

section \<open>Position-ranking fetch: results\<close>

lemma example_run_v6_evening:
  "get_holding_rank_data_v6 example_api example_evening ''IF2506'' cn_long_position
    = ([739259], (example_ranking, Some ''20250108'', None))"
proof -
  have d: "strftime_Ymd example_evening = ''20250108''"
    by (simp add: example_evening_def strftime_Ymd_def ord2ymd_def Let_def DAYS_BEFORE_MONTH_def
      DAYS_IN_MONTH_def digit_def)
  have s: "start_day example_evening = 0"
    by (simp add: start_day_cutoff past_cutoff_def example_evening_def)
  have u: "[0..<max_days] = 0 # [1..<max_days]"
    by (simp add: max_days_def upt_conv_Cons)
  have m: "minus_days example_evening 0 = Inr example_evening"
    by (simp add: minus_days_def example_evening_def)
  have w: "weekday example_evening = 2"
    by (simp add: weekday_def weekday_of_def example_evening_def)
  have ne: "\<not> df_empty example_table" by (simp add: df_empty_def example_table_def)
  have f: "date_field_found example_table t (columns example_table) = Inr False" for t
    by (simp add: example_table_def columns_def lower_def lower_char_def ascii_lower_def
        ascii_upper_def)
  have x: "\<not> list_ex (\<lambda>col. py_in ''date'' (lower col)) (columns example_table)"
    by (simp add: example_table_def columns_def lower_def lower_char_def ascii_lower_def
        ascii_upper_def)
  have n: "nrows example_table = 5" by (simp add: example_table_def)
  have t: "try_day_v6 (example_api DCE t v) ''IF2506'' t = Some example_table" for t v
    by (simp add: try_day_v6_def example_api_def ne f x n)
  have wk: "walk (\<lambda>target_date_str. try_day_v6 (example_api DCE target_date_str v) ''IF2506'' target_date_str)
      example_evening [start_day example_evening..<max_days]
    = ([739259], Inr (Some (''20250108'', example_table)))" for v
    unfolding s u by (simp add: m w t d) (simp add: example_evening_def)
  have st: "standardize_v6 example_table cn_long_position = Inr (Inr example_ranking)"
    by (simp add: standardize_v6_def example_table_def example_ranking_def columns_def pick_def
      select_columns_def set_columns_def unified_columns_def
      cn_long_position_def cn_volume_ranking_def cn_volume_def)
  have h: "df_head 20 example_ranking = example_ranking"
    by (simp add: df_head_def example_ranking_def)
  show ?thesis
    by (simp add: get_holding_rank_data_v6_def example_route_v6 wk ne st h)
qed

lemma example_run_v6_morning:
  "fst (get_holding_rank_data_v6 example_api example_morning ''IF2506'' cn_long_position) = [739258]"
proof -
  have s: "start_day example_morning = 1"
    by (simp add: start_day_cutoff past_cutoff_def example_morning_def)
  have u: "[1..<max_days] = 1 # [2..<max_days]"
    by (simp add: max_days_def upt_conv_Cons)
  have m: "minus_days example_morning (Suc 0) = Inr (example_morning\<lparr>ordinal := 739258\<rparr>)"
    by (simp add: minus_days_def example_morning_def)
  have w: "weekday (example_morning\<lparr>ordinal := 739258\<rparr>) = 1"
    by (simp add: weekday_def weekday_of_def example_morning_def)
  have ne: "\<not> df_empty example_table" by (simp add: df_empty_def example_table_def)
  have f: "date_field_found example_table t (columns example_table) = Inr False" for t
    by (simp add: example_table_def columns_def lower_def lower_char_def ascii_lower_def
        ascii_upper_def)
  have x: "\<not> list_ex (\<lambda>col. py_in ''date'' (lower col)) (columns example_table)"
    by (simp add: example_table_def columns_def lower_def lower_char_def ascii_lower_def
        ascii_upper_def)
  have n: "nrows example_table = 5" by (simp add: example_table_def)
  have t: "try_day_v6 (example_api DCE t v) ''IF2506'' t = Some example_table" for t v
    by (simp add: try_day_v6_def example_api_def ne f x n)
  show ?thesis
    unfolding queried_v6 example_route_v6 s u
    by (simp add: m w t)
qed

lemma full_range_budget:
  "length (fst (walk attempt now [start..<max_days])) \<le> 30
    \<and> distinct (fst (walk attempt now [start..<max_days]))
    \<and> (\<forall>d\<in>set (fst (walk attempt now [start..<max_days])).
          weekday_of d \<noteq> 5 \<and> weekday_of d \<noteq> 6
          \<and> ordinal now - 29 \<le> d \<and> d \<le> ordinal now)"
  by (rule walk_budget) auto

lemma example_times:
  "\<not> past_cutoff example_morning \<and> past_cutoff example_evening
   \<and> ordinal example_morning = 739259 \<and> ordinal example_evening = 739259
   \<and> weekday example_morning = 2 \<and> weekday example_evening = 2"
  by (simp add: past_cutoff_def example_morning_def example_evening_def weekday_def weekday_of_def)

text \<open>
  C2. For every endpoint behaviour, clock reading, symbol and data type, the triple that
  \<open>get_holding_rank_data\<close> returns, in \<open>data_utils.py\<close> and in the dashboard, has either a
  table that is not empty together with no error message, or an empty table together
  with an error message. Every exception ends in the outer handler, which returns such a
  triple, so the function returns on every input.
\<close>

theorem holding_rank_table_xor_error:
  "(case snd (get_holding_rank_data api now symbol data_type) of
      (df, data_date, error_msg) \<Rightarrow>
        \<not> df_empty df \<and> error_msg = None \<or> df_empty df \<and> error_msg \<noteq> None)
   \<and> (case snd (get_holding_rank_data_v6 api now symbol data_type) of
        (df, data_date, error_msg) \<Rightarrow>
          \<not> df_empty df \<and> error_msg = None \<or> df_empty df \<and> error_msg \<noteq> None)"
  using main_du [of api now symbol data_type] main_v6 [of api now symbol data_type]
  by (simp add: case_prod_unfold)

theorem holding_rank_table_xor_error_witness:
  "\<not> df_empty example_ranking
   \<and> snd (get_holding_rank_data example_api example_morning ''IF2506'' cn_long_position)
       = (example_ranking, Some ''20250108'', None)
   \<and> snd (get_holding_rank_data_v6 example_api example_evening ''IF2506'' cn_long_position)
       = (example_ranking, Some ''20250108'', None)"
  using holding_rank_table_xor_error [of example_api example_morning "''IF2506''" cn_long_position]
    holding_rank_table_xor_error [of example_api example_evening "''IF2506''" cn_long_position]
  by (simp add: example_run example_run_v6_evening)

text \<open>
  C3. Whenever \<open>get_holding_rank_data\<close> returns no error message, in either file, the
  columns of the returned table are exactly rank, member, value and change (the four
  Chinese labels, in this order) and the table has at most 20 rows.
\<close>

theorem holding_rank_success_shape:
  "(snd (get_holding_rank_data api now symbol data_type) = (df, data_date, None)
      \<longrightarrow> columns df = [cn_rank, cn_member, cn_value, cn_change] \<and> nrows df \<le> 20)
   \<and> (snd (get_holding_rank_data_v6 api now symbol data_type) = (df', data_date', None)
      \<longrightarrow> columns df' = [cn_rank, cn_member, cn_value, cn_change] \<and> nrows df' \<le> 20)"
  using main_du [of api now symbol data_type] main_v6 [of api now symbol data_type]
  by (auto simp: unified_columns_def)

theorem holding_rank_success_shape_witness:
  "snd (get_holding_rank_data example_api example_morning ''IF2506'' cn_long_position)
       = (example_ranking, Some ''20250108'', None)
   \<and> snd (get_holding_rank_data_v6 example_api example_evening ''IF2506'' cn_long_position)
       = (example_ranking, Some ''20250108'', None)
   \<and> columns example_ranking = [cn_rank, cn_member, cn_value, cn_change]
   \<and> nrows example_ranking \<le> 20"
  using holding_rank_success_shape [where api = example_api and now = example_morning
      and symbol = "''IF2506''" and data_type = cn_long_position and df = example_ranking
      and data_date = "Some ''20250108''"]
    holding_rank_success_shape [where api = example_api and now = example_evening
      and symbol = "''IF2506''" and data_type = cn_long_position and df' = example_ranking
      and data_date' = "Some ''20250108''"]
  by (simp add: example_run example_run_v6_evening)


text \<open>
  C4. In every run of \<open>get_holding_rank_data\<close>, in either file, the endpoint is called
  for at most 30 days, no day is called twice, no day called is a Saturday or a Sunday,
  and every day called is among the 30 days that end today.
\<close>

theorem day_walk_budget:
  "length (fst (get_holding_rank_data api now symbol data_type)) \<le> 30
   \<and> distinct (fst (get_holding_rank_data api now symbol data_type))
   \<and> (\<forall>d\<in>set (fst (get_holding_rank_data api now symbol data_type)).
         weekday_of d \<noteq> 5 \<and> weekday_of d \<noteq> 6 \<and> ordinal now - 29 \<le> d \<and> d \<le> ordinal now)
   \<and> length (fst (get_holding_rank_data_v6 api now symbol data_type)) \<le> 30
   \<and> distinct (fst (get_holding_rank_data_v6 api now symbol data_type))
   \<and> (\<forall>d\<in>set (fst (get_holding_rank_data_v6 api now symbol data_type)).
         weekday_of d \<noteq> 5 \<and> weekday_of d \<noteq> 6 \<and> ordinal now - 29 \<le> d \<and> d \<le> ordinal now)"
proof -
  have du: "length (fst (get_holding_rank_data api now symbol data_type)) \<le> 30
   \<and> distinct (fst (get_holding_rank_data api now symbol data_type))
   \<and> (\<forall>d\<in>set (fst (get_holding_rank_data api now symbol data_type)).
         weekday_of d \<noteq> 5 \<and> weekday_of d \<noteq> 6 \<and> ordinal now - 29 \<le> d \<and> d \<le> ordinal now)"
  proof (cases "get_exchange_by_symbol symbol")
    case None
    then show ?thesis by (simp add: queried_du)
  next
    case (Some exchange)
    then show ?thesis
      using full_range_budget [of _ now 0] by (simp add: queried_du)
  qed
  have v6: "length (fst (get_holding_rank_data_v6 api now symbol data_type)) \<le> 30
   \<and> distinct (fst (get_holding_rank_data_v6 api now symbol data_type))
   \<and> (\<forall>d\<in>set (fst (get_holding_rank_data_v6 api now symbol data_type)).
         weekday_of d \<noteq> 5 \<and> weekday_of d \<noteq> 6 \<and> ordinal now - 29 \<le> d \<and> d \<le> ordinal now)"
  proof (cases "get_exchange_by_symbol_v6 symbol")
    case None
    then show ?thesis by (simp add: queried_v6)
  next
    case (Some exchange)
    then show ?thesis
      using full_range_budget [of _ now "start_day now"] by (simp add: queried_v6)
  qed
  from du v6 show ?thesis by blast
qed

theorem day_walk_budget_witness:
  "fst (get_holding_rank_data example_api example_morning ''IF2506'' cn_long_position) = [739259]
   \<and> weekday_of 739259 = 2
   \<and> fst (get_holding_rank_data_v6 example_api example_morning ''IF2506'' cn_long_position) = [739258]
   \<and> weekday_of 739258 = 1"
  using day_walk_budget [of example_api example_morning "''IF2506''" cn_long_position]
  by (simp add: example_run example_run_v6_morning weekday_of_def)

text \<open>
  C1 (as amended). In the dashboard the walk starts at offset 0 when the time of day is
  at or after 16:30 and at offset 1 before: before 16:30 today is never queried, and from
  16:30 on a weekday the first query is for today. In \<open>data_utils.py\<close> there is no
  cutoff: the walk starts at offset 0 at every time of day, so on a weekday the first
  query of a routed symbol is for today.
\<close>

theorem cutoff_start_offset:
  "start_day now = (if past_cutoff now then 0 else 1)
   \<and> (\<not> past_cutoff now
        \<longrightarrow> ordinal now \<notin> set (fst (get_holding_rank_data_v6 api now symbol data_type)))
   \<and> (past_cutoff now \<and> 1 \<le> ordinal now \<and> weekday now \<noteq> 5 \<and> weekday now \<noteq> 6
        \<longrightarrow> (\<exists>rest. fst (get_holding_rank_data_v6 api now symbol data_type) = ordinal now # rest))
   \<and> (get_exchange_by_symbol symbol \<noteq> None
        \<and> 1 \<le> ordinal now \<and> weekday now \<noteq> 5 \<and> weekday now \<noteq> 6
        \<longrightarrow> (\<exists>rest. fst (get_holding_rank_data api now symbol data_type) = ordinal now # rest))"
proof (intro conjI impI)
  show "start_day now = (if past_cutoff now then 0 else 1)"
    by (rule start_day_cutoff)
next
  assume early: "\<not> past_cutoff now"
  show "ordinal now \<notin> set (fst (get_holding_rank_data_v6 api now symbol data_type))"
  proof
    assume today: "ordinal now \<in> set (fst (get_holding_rank_data_v6 api now symbol data_type))"
    then obtain exchange where "get_exchange_by_symbol_v6 symbol = Some exchange"
      by (cases "get_exchange_by_symbol_v6 symbol") (simp_all add: queried_v6)
    with today early obtain attempt where "ordinal now \<in> set (fst (walk attempt now [1..<max_days]))"
      by (auto simp: queried_v6 start_day_cutoff)
    then obtain k where "k \<in> set [1..<max_days]" and "ordinal now = ordinal now - int k"
      using walk_log_offsets by blast
    then show False by simp
  qed
next
  assume late: "past_cutoff now \<and> 1 \<le> ordinal now \<and> weekday now \<noteq> 5 \<and> weekday now \<noteq> 6"
  obtain exchange where ex: "get_exchange_by_symbol_v6 symbol = Some exchange"
    using try_lengths_Some [of symbol "[2, 1]"]
    by (cases "get_exchange_by_symbol_v6 symbol") (simp_all add: get_exchange_by_symbol_v6_def)
  have u: "[0..<max_days] = 0 # [1..<max_days]"
    by (simp add: max_days_def upt_conv_Cons)
  from late ex show "\<exists>rest. fst (get_holding_rank_data_v6 api now symbol data_type) = ordinal now # rest"
    using walk_first_today [of now _ "[1..<max_days]"]
    by (simp add: queried_v6 start_day_cutoff u)
next
  assume routed: "get_exchange_by_symbol symbol \<noteq> None
        \<and> 1 \<le> ordinal now \<and> weekday now \<noteq> 5 \<and> weekday now \<noteq> 6"
  then obtain exchange where ex: "get_exchange_by_symbol symbol = Some exchange" by blast
  have u: "[0..<max_days] = 0 # [1..<max_days]"
    by (simp add: max_days_def upt_conv_Cons)
  from routed ex show "\<exists>rest. fst (get_holding_rank_data api now symbol data_type) = ordinal now # rest"
    using walk_first_today [of now _ "[1..<max_days]"]
    by (simp add: queried_du u)
qed

theorem cutoff_start_offset_witness:
  "start_day example_morning = 1 \<and> start_day example_evening = 0
   \<and> 739259 \<notin> set (fst (get_holding_rank_data_v6 example_api example_morning ''IF2506''
                            cn_long_position))
   \<and> (\<exists>rest. fst (get_holding_rank_data_v6 example_api example_evening ''IF2506''
                     cn_long_position) = 739259 # rest)
   \<and> (\<exists>rest. fst (get_holding_rank_data example_api example_morning ''IF2506''
                     cn_long_position) = 739259 # rest)
   \<and> (\<exists>rest. fst (get_holding_rank_data example_api example_evening ''IF2506''
                     cn_long_position) = 739259 # rest)"
  using cutoff_start_offset [of example_morning example_api "''IF2506''" cn_long_position]
    cutoff_start_offset [of example_evening example_api "''IF2506''" cn_long_position]
  by (simp add: example_times example_route)

text \<open>
  C1 as stated fails for \<open>data_utils.py\<close>: on Wednesday 8 January 2025 at 10:00, before
  the cutoff, where the dashboard starts at offset 1, \<open>data_utils.py\<close> queries today.
\<close>

theorem cutoff_start_offset_counterexample:
  "\<not> past_cutoff example_morning
   \<and> start_day example_morning = 1
   \<and> weekday example_morning = 2
   \<and> fst (get_holding_rank_data example_api example_morning ''IF2506'' cn_long_position)
       = [ordinal example_morning]"
  by (simp add: example_times example_run start_day_cutoff)

section \<open>Indicator calculators on an empty bar series: lemmas\<close>

lemma rolling_no_rows: "0 \<le> w \<Longrightarrow> rolling w agg [] = Inr []"
  by (simp add: rolling_def)

lemma ewm_mean_no_rows: "1 \<le> p \<Longrightarrow> ewm_mean p [] = Inr []"
  by (simp add: ewm_mean_def)

lemma get_set_column:
  "get_column (set_column df l s) l' = (if l' = l then Inr s else get_column df l')"
  by (simp add: get_column_def set_column_def update_conv')

lemma map_of_set_column:
  "map_of (set_column df l s) l' = (if l' = l then Some s else map_of df l')"
  by (simp add: set_column_def update_conv')

lemma empty_bars_column:
  assumes "empty_bars df" and "map_of df l = Some s"
  shows "s = []"
proof -
  from assms(2) have "(l, s) \<in> set df" by (rule map_of_SomeD)
  with assms(1) show ?thesis by (auto simp: empty_bars_def list_all_iff)
qed

lemma empty_bars_get:
  assumes "empty_bars df" and "l \<in> {''high'', ''low'', ''close'', ''volume''}"
  shows "get_column df l = Inr []"
proof -
  from assms have "map_of df l \<noteq> None" by (auto simp: empty_bars_def)
  then obtain s where s: "map_of df l = Some s" by blast
  with assms(1) have "s = []" by (rule empty_bars_column)
  with s show ?thesis by (simp add: get_column_def)
qed

lemma set_update_subset: "set (AList.update k v al) \<subseteq> insert (k, v) (set al)"
  by (induction al) auto

lemma empty_bars_set:
  assumes "empty_bars df"
  shows "empty_bars (set_column df l [])"
proof -
  have "\<forall>c\<in>set (set_column df l []). snd c = []"
    using assms set_update_subset [of l "[]" df]
    by (auto simp: empty_bars_def list_all_iff set_column_def)
  moreover have "map_of (set_column df l []) k \<noteq> None" if "map_of df k \<noteq> None" for k
    using that by (simp add: map_of_set_column)
  ultimately show ?thesis
    using assms by (simp add: empty_bars_def list_all_iff)
qed

lemma map_of_filter_labels:
  "map_of (filter (\<lambda>c. fst c \<notin> A) al) k = (if k \<in> A then None else map_of al k)"
  by (induction al) auto

lemma empty_bars_drop:
  assumes "empty_bars df" and "list_all (\<lambda>l. map_of df l \<noteq> None) labels"
    and "set labels \<inter> {''high'', ''low'', ''close'', ''volume''} = {}"
  shows "\<exists>r. drop_columns df labels = Inr r \<and> empty_bars r
    \<and> (\<forall>k. k \<notin> set labels \<longrightarrow> map_of r k = map_of df k)"
proof -
  let ?r = "filter (\<lambda>c. fst c \<notin> set labels) df"
  from assms(2) have "drop_columns df labels = Inr ?r" by (simp add: drop_columns_def)
  moreover have "empty_bars ?r"
    using assms(1,3) by (auto simp: empty_bars_def list_all_iff map_of_filter_labels)
  moreover have "\<forall>k. k \<notin> set labels \<longrightarrow> map_of ?r k = map_of df k"
    by (simp add: map_of_filter_labels)
  ultimately show ?thesis by blast
qed

lemma str_int_20: "str_int 20 = ''20''"
  by (simp add: str_int_def digits_of.simps digit_def)

lemma calculate_ma_no_rows:
  assumes "empty_bars df" and "0 \<le> w"
  shows "calculate_ma df w ''close'' nm = Inr (set_column df (name_or nm (''ma'' @ str_int w)) [])"
  using assms empty_bars_get [of df "''close''"]
  by (simp add: calculate_ma_def and_then_def rolling_mean_def rolling_no_rows)

lemma calculate_volume_ma_no_rows:
  assumes "empty_bars df" and "0 \<le> w"
  shows "calculate_volume_ma df w ''volume'' nm
    = Inr (set_column df (name_or nm (''vol_ma'' @ str_int w)) [])"
  using assms empty_bars_get [of df "''volume''"]
  by (simp add: calculate_volume_ma_def and_then_def rolling_mean_def rolling_no_rows)

lemma calculate_rsi_no_rows:
  assumes "empty_bars df" and "0 \<le> w"
  shows "calculate_rsi df w ''close'' nm = Inr (set_column df nm [])"
  using assms empty_bars_get [of df "''close''"]
  by (simp add: calculate_rsi_def and_then_def rolling_mean_def rolling_no_rows diff_def
      shift1_def where_else_zero_def)

lemma calculate_bollinger_bands_no_rows:
  assumes "empty_bars df" and "0 \<le> w"
  shows "calculate_bollinger_bands df w k ''close'' ''bb''
    = Inr (set_column (set_column (set_column df ''bb_mid'' []) ''bb_upper'' []) ''bb_lower'' [])"
  using assms empty_bars_get [of df "''close''"]
  by (simp add: calculate_bollinger_bands_def and_then_def rolling_mean_def rolling_std_def
      rolling_no_rows get_set_column)

lemma calculate_macd_no_rows:
  assumes "empty_bars df" and "1 \<le> f" and "1 \<le> s" and "1 \<le> g"
  shows "calculate_macd df f s g ''close'' ''macd''
    = Inr (set_column (set_column (set_column (set_column (set_column df
        ''macd_fast'' []) ''macd_slow'' []) ''macd_line'' []) ''macd_signal'' []) ''macd_hist'' [])"
  using assms empty_bars_get [of df "''close''"]
  by (simp add: calculate_macd_def and_then_def ewm_mean_no_rows get_set_column)

lemma calculate_atr_no_rows:
  assumes "empty_bars df" and "0 \<le> w"
  shows "\<exists>r. calculate_atr df w ''atr'' = Inr r \<and> empty_bars r \<and> map_of r ''atr'' = Some []"
proof -
  let ?df5 = "set_column (set_column (set_column (set_column (set_column df
        ''tr1'' []) ''tr2'' []) ''tr3'' []) ''tr'' []) ''atr'' []"
  have run: "calculate_atr df w ''atr'' = drop_columns ?df5 [''tr1'', ''tr2'', ''tr3'', ''tr'']"
    using assms empty_bars_get [of df "''close''"] empty_bars_get [of df "''high''"]
      empty_bars_get [of df "''low''"]
    by (simp add: calculate_atr_def and_then_def rolling_mean_def rolling_no_rows get_set_column
        shift1_def row_max3_def)
  have e5: "empty_bars ?df5" using assms(1) by (intro empty_bars_set)
  have "list_all (\<lambda>l. map_of ?df5 l \<noteq> None) [''tr1'', ''tr2'', ''tr3'', ''tr'']"
    by (simp add: map_of_set_column)
  from empty_bars_drop [OF e5 this] obtain r where
    r: "drop_columns ?df5 [''tr1'', ''tr2'', ''tr3'', ''tr''] = Inr r" "empty_bars r"
      "\<forall>k. k \<notin> set [''tr1'', ''tr2'', ''tr3'', ''tr''] \<longrightarrow> map_of r k = map_of ?df5 k"
    by auto
  from r(3) have "map_of r ''atr'' = Some []" by (simp add: map_of_set_column)
  with run r(1,2) show ?thesis by simp
qed


lemma str_int_50: "str_int 50 = ''50''"
  by (simp add: str_int_def digits_of.simps digit_def)

lemma calculate_all_no_rows:
  assumes "empty_bars df"
  shows "\<exists>r. calculate_all df = Inr r \<and> empty_bars r"
proof -
  let ?df1 = "set_column df ''ma20'' []"
  let ?df2 = "set_column ?df1 ''ma50'' []"
  let ?df3 = "set_column ?df2 ''ma200'' []"
  have e1: "empty_bars ?df1" using assms by (rule empty_bars_set)
  have e2: "empty_bars ?df2" using e1 by (rule empty_bars_set)
  have e3: "empty_bars ?df3" using e2 by (rule empty_bars_set)
  have s1: "calculate_ma df 20 ''close'' None = Inr ?df1"
    using calculate_ma_no_rows [OF assms, of 20 None] by (simp add: name_or_def str_int_20)
  have s2: "calculate_ma ?df1 50 ''close'' (Some ''ma50'') = Inr ?df2"
    using calculate_ma_no_rows [OF e1, of 50 "Some ''ma50''"] by (simp add: name_or_def)
  have s3: "calculate_ma ?df2 200 ''close'' (Some ''ma200'') = Inr ?df3"
    using calculate_ma_no_rows [OF e2, of 200 "Some ''ma200''"] by (simp add: name_or_def)
  from calculate_atr_no_rows [OF e3, of 14] obtain df4 where
    s4: "calculate_atr ?df3 14 ''atr'' = Inr df4" and e4: "empty_bars df4" by auto
  define df5 where "df5 = set_column (set_column (set_column (set_column (set_column df4
        ''macd_fast'' []) ''macd_slow'' []) ''macd_line'' []) ''macd_signal'' []) ''macd_hist'' []"
  have s5: "calculate_macd df4 12 26 9 ''close'' ''macd'' = Inr df5"
    using calculate_macd_no_rows [OF e4, of 12 26 9] by (simp add: df5_def)
  have e5: "empty_bars df5" unfolding df5_def using e4 by (intro empty_bars_set)
  define df6 where "df6 = set_column df5 ''rsi'' []"
  have s6: "calculate_rsi df5 14 ''close'' ''rsi'' = Inr df6"
    using calculate_rsi_no_rows [OF e5, of 14 "''rsi''"] by (simp add: df6_def)
  have e6: "empty_bars df6" unfolding df6_def using e5 by (rule empty_bars_set)
  define df7 where
    "df7 = set_column (set_column (set_column df6 ''bb_mid'' []) ''bb_upper'' []) ''bb_lower'' []"
  have s7: "calculate_bollinger_bands df6 20 2 ''close'' ''bb'' = Inr df7"
    using calculate_bollinger_bands_no_rows [OF e6, of 20 2] by (simp add: df7_def)
  have e7: "empty_bars df7" unfolding df7_def using e6 by (intro empty_bars_set)
  define df8 where "df8 = set_column df7 ''vol_ma20'' []"
  have s8: "calculate_volume_ma df7 20 ''volume'' None = Inr df8"
    using calculate_volume_ma_no_rows [OF e7, of 20 None]
    by (simp add: df8_def name_or_def str_int_20)
  have e8: "empty_bars df8" unfolding df8_def using e7 by (rule empty_bars_set)
  have "calculate_all df = Inr df8"
    by (simp add: calculate_all_def and_then_def s1 s2 s3 s4 s5 s6 s7 s8)
  with e8 show ?thesis by blast
qed

lemma empty_ohlcv_empty: "empty_bars empty_ohlcv"
  by (simp add: empty_bars_def empty_ohlcv_def)

lemma no_columns_raises: "calculate_all [] = Inl KeyError"
  by (simp add: calculate_all_def calculate_ma_def and_then_def get_column_def)


section \<open>Indicator calculators on an empty bar series: results\<close>

text \<open>
  C8 (as amended). On an empty bar series, a table that has the columns the calculators
  read and no row, no indicator calculator raises: with their default arguments, moving
  average, ATR, MACD, RSI, Bollinger Bands and volume moving average each return the
  table with their derived columns added, all of them empty, and so does
  \<open>calculate_all\<close>.
\<close>

theorem empty_bars_no_error:
  assumes "empty_bars df"
  shows "(\<exists>r. calculate_ma df 20 ''close'' None = Inr r \<and> empty_bars r
            \<and> map_of r ''ma20'' = Some [])
    \<and> (\<exists>r. calculate_atr df 14 ''atr'' = Inr r \<and> empty_bars r \<and> map_of r ''atr'' = Some [])
    \<and> (\<exists>r. calculate_macd df 12 26 9 ''close'' ''macd'' = Inr r \<and> empty_bars r
            \<and> map_of r ''macd_line'' = Some [] \<and> map_of r ''macd_signal'' = Some []
            \<and> map_of r ''macd_hist'' = Some [])
    \<and> (\<exists>r. calculate_rsi df 14 ''close'' ''rsi'' = Inr r \<and> empty_bars r
            \<and> map_of r ''rsi'' = Some [])
    \<and> (\<exists>r. calculate_bollinger_bands df 20 2 ''close'' ''bb'' = Inr r \<and> empty_bars r
            \<and> map_of r ''bb_mid'' = Some [] \<and> map_of r ''bb_upper'' = Some []
            \<and> map_of r ''bb_lower'' = Some [])
    \<and> (\<exists>r. calculate_volume_ma df 20 ''volume'' None = Inr r \<and> empty_bars r
            \<and> map_of r ''vol_ma20'' = Some [])
    \<and> (\<exists>r. calculate_all df = Inr r \<and> empty_bars r)"
proof (intro conjI)
  show "\<exists>r. calculate_ma df 20 ''close'' None = Inr r \<and> empty_bars r \<and> map_of r ''ma20'' = Some []"
    using assms
    by (simp add: calculate_ma_no_rows name_or_def str_int_20 empty_bars_set map_of_set_column)
  show "\<exists>r. calculate_atr df 14 ''atr'' = Inr r \<and> empty_bars r \<and> map_of r ''atr'' = Some []"
    using assms by (intro calculate_atr_no_rows) simp_all
  show "\<exists>r. calculate_macd df 12 26 9 ''close'' ''macd'' = Inr r \<and> empty_bars r
            \<and> map_of r ''macd_line'' = Some [] \<and> map_of r ''macd_signal'' = Some []
            \<and> map_of r ''macd_hist'' = Some []"
    using assms by (simp add: calculate_macd_no_rows empty_bars_set map_of_set_column)
  show "\<exists>r. calculate_rsi df 14 ''close'' ''rsi'' = Inr r \<and> empty_bars r
            \<and> map_of r ''rsi'' = Some []"
    using assms by (simp add: calculate_rsi_no_rows empty_bars_set map_of_set_column)
  show "\<exists>r. calculate_bollinger_bands df 20 2 ''close'' ''bb'' = Inr r \<and> empty_bars r
            \<and> map_of r ''bb_mid'' = Some [] \<and> map_of r ''bb_upper'' = Some []
            \<and> map_of r ''bb_lower'' = Some []"
    using assms
    by (simp add: calculate_bollinger_bands_no_rows empty_bars_set map_of_set_column)
  show "\<exists>r. calculate_volume_ma df 20 ''volume'' None = Inr r \<and> empty_bars r
            \<and> map_of r ''vol_ma20'' = Some []"
    using assms
    by (simp add: calculate_volume_ma_no_rows name_or_def str_int_20 empty_bars_set
        map_of_set_column)
  show "\<exists>r. calculate_all df = Inr r \<and> empty_bars r"
    using assms by (rule calculate_all_no_rows)
qed

theorem empty_bars_no_error_witness:
  "empty_bars empty_ohlcv
   \<and> calculate_ma empty_ohlcv 20 ''close'' None \<noteq> Inl KeyError
   \<and> calculate_all empty_ohlcv \<noteq> Inl KeyError
   \<and> calculate_all empty_ohlcv \<noteq> Inl ValueError"
  using empty_bars_no_error [OF empty_ohlcv_empty] empty_ohlcv_empty by auto

text \<open>
  C8 as stated fails: on the table with the five OHLCV columns and no row,
  \<open>calculate_ma\<close> and \<open>calculate_rsi\<close> return the table with an empty derived column
  instead of raising.
\<close>

theorem empty_bars_counterexample:
  "calculate_ma empty_ohlcv 20 ''close'' None =
     Inr [(''open'', []), (''high'', []), (''low'', []), (''close'', []), (''volume'', []),
          (''ma20'', [])]
   \<and> calculate_rsi empty_ohlcv 14 ''close'' ''rsi'' =
     Inr [(''open'', []), (''high'', []), (''low'', []), (''close'', []), (''volume'', []),
          (''rsi'', [])]"
  by (simp add: calculate_ma_no_rows calculate_rsi_no_rows empty_ohlcv_empty name_or_def str_int_20)
    (simp add: empty_ohlcv_def set_column_def)

section \<open>RSI and Bollinger Bands: results\<close>






















section \<open>Model registry: results\<close>

text \<open>
  The operations that clear the other flags keep "at most one active model":
  \<open>set_active_model\<close>, \<open>update_model\<close> and \<open>delete_model\<close> do, and so does \<open>add_model\<close> for
  a model that is not flagged active or that is the first one.
\<close>

lemma deactivate_all_none: "filter (\<lambda>(k, m). is_active m) (deactivate_all ms) = []"
  by (induction ms) (auto simp: deactivate_all_def)

lemma filter_update_le:
  "length (filter P (AList.update k v ms)) \<le> length (filter P ms) + 1"
  by (induction ms) auto

lemma filter_delete_le:
  "length (filter P (AList.delete k ms)) \<le> length (filter P ms)"
  by (induction ms) auto

lemma filter_delete_less:
  "map_of ms k = Some v \<Longrightarrow> P (k, v) \<Longrightarrow> length (filter P (AList.delete k ms)) < length (filter P ms)"
proof (induction ms)
  case Nil
  then show ?case by simp
next
  case (Cons p ms)
  show ?case
  proof (cases "fst p = k")
    case True
    with Cons.prems have "p = (k, v)" by (cases p) simp
    with Cons.prems show ?thesis
      using filter_delete_le [of P k ms] by (simp add: less_Suc_eq_le)
  next
    case False
    with Cons show ?thesis by (cases p) auto
  qed
qed

lemma filter_update_inactive:
  "\<not> P (k, v) \<Longrightarrow> length (filter P (AList.update k v ms)) \<le> length (filter P ms)"
  by (induction ms) auto

lemma set_active_model_keeps:
  "active_count self \<le> 1 \<Longrightarrow> active_count (snd (set_active_model saved self mid)) \<le> 1"
  using filter_update_le[of "\<lambda>(k, m). is_active m" mid _ "deactivate_all (models self)"]
  by (auto simp: set_active_model_def active_count_def Let_def deactivate_all_none split: option.splits)

lemma update_model_keeps:
  "active_count self \<le> 1 \<Longrightarrow> active_count (snd (update_model saved self mid m)) \<le> 1"
  using filter_update_le[of "\<lambda>(k, m). is_active m" mid _ "deactivate_all (models self)"]
    filter_update_inactive[of "\<lambda>(k, m). is_active m" mid "m\<lparr>model_id := mid\<rparr>" "models self"]
  by (auto simp: update_model_def active_count_def Let_def deactivate_all_none)

lemma delete_model_keeps:
  assumes "active_count self \<le> 1"
  shows "active_count (snd (delete_model saved self mid)) \<le> 1"
proof (cases "map_of (models self) mid")
  case None
  with assms show ?thesis by (simp add: delete_model_def)
next
  case (Some m)
  let ?P = "\<lambda>(k, m::AIModel). is_active m"
  show ?thesis
  proof (cases "is_active m")
    case False
    with Some assms show ?thesis
      using filter_delete_le [of ?P mid "models self"]
      by (simp add: delete_model_def active_count_def)
  next
    case True
    with Some have less: "length (filter ?P (AList.delete mid (models self))) < length (filter ?P (models self))"
      by (intro filter_delete_less [of _ _ m]) simp_all
    show ?thesis
    proof (cases "models self")
      case Nil
      with Some show ?thesis by simp
    next
      case (Cons p others)
      obtain first_model_id first where p: "p = (first_model_id, first)" by (cases p)
      show ?thesis
      proof (cases "first_model_id \<noteq> mid \<and> 1 < length (models self)")
        case False
        with Some True Cons p assms less show ?thesis
          by (auto simp: delete_model_def active_count_def Let_def)
      next
        case neq: True
        with Some Cons p have "map_of others mid = Some m" by (auto split: if_splits)
        with True have "length (filter ?P (AList.delete mid others)) < length (filter ?P others)"
          by (intro filter_delete_less [of _ _ m]) simp_all
        moreover from assms Cons p have "length (filter ?P others) \<le> 1"
          by (simp add: active_count_def split: if_splits)
        ultimately have "length (filter ?P (AList.delete mid others)) = 0" by linarith
        with Some True Cons p neq show ?thesis
          by (simp add: delete_model_def active_count_def Let_def)
      qed
    qed
  qed
qed

lemma add_model_keeps:
  "active_count self \<le> 1 \<Longrightarrow> \<not> is_active m \<or> models self = [] \<Longrightarrow> active_count (snd (add_model saved self m)) \<le> 1"
  using filter_update_inactive[of "\<lambda>(k, m). is_active m" "model_id m" m "models self"]
  by (auto simp: add_model_def active_count_def Let_def)

text \<open>
  C6 fails on the code. From the empty registry, adding a first model makes it the active
  one; adding a second model whose \<open>is_active\<close> flag is set succeeds and stores it as it
  is, without clearing the flag of the first: two stored models are active.
\<close>

theorem add_model_two_active:
  "active_count empty_registry = 0
   \<and> fst (add_model True empty_registry (example_model ''m1'' False)) = True
   \<and> active_count (snd (add_model True empty_registry (example_model ''m1'' False))) = 1
   \<and> fst (add_model True (snd (add_model True empty_registry (example_model ''m1'' False)))
          (example_model ''m2'' True)) = True
   \<and> active_count (snd (add_model True (snd (add_model True empty_registry (example_model ''m1'' False)))
          (example_model ''m2'' True))) = 2"
  by (simp add: add_model_def empty_registry_def example_model_def active_count_def Let_def)

end
